theory Spec2Isabelle
  imports Complex_Main "HOL-Library.Sublist" "HOL-Library.Multiset" "HOL-Library.Product_Lexorder"
    "HOL-Library.List_Lexorder" "HOL-Library.Char_ord"
begin

section \<open>Process environment and JavaScript truthiness\<close>

text \<open>
  \<^verbatim>\<open>process.env\<close> is a dictionary from variable names to strings; a variable that is
  not set reads as \<^verbatim>\<open>undefined\<close>. Both \<^verbatim>\<open>undefined\<close> and the empty string are falsy,
  which is what \<^verbatim>\<open>!value\<close> and \<^verbatim>\<open>a || b\<close> test.
\<close>

type_synonym env = "string \<rightharpoonup> string"

definition truthy :: "string option \<Rightarrow> bool" where
  "truthy v = (case v of None \<Rightarrow> False | Some s \<Rightarrow> s \<noteq> [])"

definition js_or :: "string option \<Rightarrow> string option \<Rightarrow> string option" where
  "js_or a b = (if truthy a then a else b)"

text \<open>
  A thrown JavaScript value: an \<^verbatim>\<open>Error\<close> object, identified by its message, or any other
  value (JavaScript can throw anything), identified by its printed form.
\<close>

datatype js_error = Error string | NonError string

section \<open>Configuration resolver (database.ts)\<close>

text \<open>
  The \<^verbatim>\<open>ssl\<close> option is either a mode string or \<^verbatim>\<open>false\<close>. The field \<^verbatim>\<open>max\<close> of the
  source is called \<open>max_conn\<close> here.
\<close>

datatype ssl_setting = SslMode string | SslFalse

record db_config =
  url :: string
  ssl :: ssl_setting
  max_conn :: nat
  idle_timeout :: nat
  connect_timeout :: nat
  prepare :: bool

definition getDatabaseConfig :: "env \<Rightarrow> js_error + db_config" where
  "getDatabaseConfig e =
     (case js_or (e ''POSTGRES_URL'') (e ''DATABASE_URL'') of
        None \<Rightarrow> Inl (Error ''Missing database URL. Please set POSTGRES_URL or DATABASE_URL environment variable.'')
      | Some postgresUrl \<Rightarrow>
          if postgresUrl = []
          then Inl (Error ''Missing database URL. Please set POSTGRES_URL or DATABASE_URL environment variable.'')
          else
            let production = (e ''NODE_ENV'' = Some ''production'');
                sslMode = (case js_or (e ''POSTGRES_SSL_MODE'')
                                      (Some (if production then ''require'' else ''prefer'')) of
                             Some m \<Rightarrow> m | None \<Rightarrow> []);
                poolSsl = (if sslMode = ''require'' then SslMode ''require''
                           else if sslMode = ''disable'' then SslFalse
                           else SslMode sslMode)
            in Inr \<lparr> url = postgresUrl, ssl = poolSsl,
                     max_conn = (if production then 20 else 10),
                     idle_timeout = 20, connect_timeout = 10, prepare = False \<rparr>)"

section \<open>Connection holder (data.ts, getSql)\<close>

text \<open>
  A client object made by \<^verbatim>\<open>postgres(url, { ssl: "require" })\<close>. Two objects made by two
  calls are distinct even when their options agree, so every object carries the serial
  number of the construction that made it.
\<close>

record client =
  handle :: nat
  client_url :: string
  client_ssl :: ssl_setting

text \<open>
  The module-level variable \<^verbatim>\<open>sqlClient\<close>, together with a count of the clients that
  \<^verbatim>\<open>postgres(...)\<close> has made so far. The count is bookkeeping of the model: the source has
  no such variable, and nothing reads it but the theorems below.
\<close>

record holder =
  sqlClient :: "client option"
  constructed :: nat

definition holder_init :: holder where
  "holder_init = \<lparr> sqlClient = None, constructed = 0 \<rparr>"

text \<open>
  The constructor \<^verbatim>\<open>postgres\<close> is code of the client library. It parses the URL and throws
  when it cannot; the first parameter of \<^verbatim>\<open>getSql\<close> says for each URL which error, if any,
  the constructor throws. A throw leaves \<^verbatim>\<open>sqlClient\<close> as it was and leaves \<^verbatim>\<open>getSql\<close>
  as the exception (\<open>Inl\<close>); otherwise \<^verbatim>\<open>getSql\<close> returns \<^verbatim>\<open>null\<close> (\<open>Inr None\<close>) or the
  client.
\<close>

definition getSql ::
    "(string \<Rightarrow> js_error option) \<Rightarrow> env \<Rightarrow> holder \<Rightarrow> (js_error + client option) \<times> holder" where
  "getSql postgres e h =
     (if \<not> truthy (e ''POSTGRES_URL'') then (Inr None, h)
      else case sqlClient h of
             Some c \<Rightarrow> (Inr (Some c), h)
           | None \<Rightarrow>
               let u = (case e ''POSTGRES_URL'' of Some u \<Rightarrow> u | None \<Rightarrow> [])
               in case postgres u of
                    Some err \<Rightarrow> (Inl err, h)
                  | None \<Rightarrow>
                      let c = \<lparr> handle = constructed h, client_url = u,
                                client_ssl = SslMode ''require'' \<rparr>
                      in (Inr (Some c),
                          h\<lparr> sqlClient := Some c, constructed := Suc (constructed h) \<rparr>))"



section \<open>The database\<close>

text \<open>
  The tables the statements of data.ts read, with the columns those statements name.
  A table is the list of its rows. Amounts are integer cents. A date is year, month and
  day, compared in that order.
\<close>

type_synonym sql_date = "nat \<times> nat \<times> nat"

record invoice =
  inv_id :: string
  inv_customer_id :: string
  inv_amount :: int
  inv_status :: string
  inv_date :: sql_date

record customer =
  cust_id :: string
  cust_name :: string
  cust_email :: string
  cust_image_url :: string

record revenue =
  rev_month :: string
  rev_revenue :: int

record database =
  invoices :: "invoice list"
  customers :: "customer list"
  revenue_rows :: "revenue list"

text \<open>
  The statements issued by data.ts and database.ts, and the world outside the program.
  A statement can fail for reasons outside the program (no connection, a refused login,
  a dropped table); the world says for each statement whether it fails and with which
  error, and otherwise the statement is evaluated on the tables. The world also holds
  what the source leaves to the client library and to the database:
  \<^item> \<open>postgres_throws\<close>: the error the constructor \<^verbatim>\<open>postgres(url, ...)\<close> throws for a URL, if any;
  \<^item> \<open>fold_case\<close>: the case folding of the database's character type, character by
    character (a \<open>char\<close> stands for one character of the text);
  \<^item> \<open>date_desc_order\<close>: the order in which the database returns rows under
    \<^verbatim>\<open>ORDER BY invoices.date DESC\<close>, which has no tie-breaker and so leaves the order of
    rows with equal dates to the database;
  \<^item> \<open>name_asc_order\<close>: the order in which it returns customers under
    \<^verbatim>\<open>ORDER BY name ASC\<close>, which depends on its collation and again has no tie-breaker.
\<close>

datatype stmt =
    SelectRevenue | SelectLatestInvoices | CountInvoices | CountCustomers | SumInvoiceStatus
  | SelectFilteredInvoices | CountFilteredInvoices | SelectInvoiceById | SelectCustomers
  | SelectFilteredCustomers | SelectOne

record world =
  db :: database
  fails :: "stmt \<Rightarrow> js_error option"
  postgres_throws :: "string \<Rightarrow> js_error option"
  fold_case :: "char \<Rightarrow> char"
  date_desc_order :: "(invoice \<times> customer) list \<Rightarrow> (invoice \<times> customer) list"
  name_asc_order :: "customer list \<Rightarrow> customer list"

definition sql_exec :: "world \<Rightarrow> stmt \<Rightarrow> (world \<Rightarrow> js_error + 'r) \<Rightarrow> js_error + 'r" where
  "sql_exec w s q = (case fails w s of Some err \<Rightarrow> Inl err | None \<Rightarrow> q w)"

subsection \<open>Casts to text\<close>

definition digit_char :: "nat \<Rightarrow> char" where
  "digit_char d = ''0123456789'' ! d"

fun nat_text :: "nat \<Rightarrow> string" where
  "nat_text n = (if n < 10 then [digit_char n] else nat_text (n div 10) @ [digit_char (n mod 10)])"

declare nat_text.simps [simp del]

definition int_text :: "int \<Rightarrow> string" where
  "int_text i = (if i < 0 then CHR ''-'' # nat_text (nat (- i)) else nat_text (nat i))"

definition zero_pad :: "nat \<Rightarrow> string \<Rightarrow> string" where
  "zero_pad n s = replicate (n - length s) CHR ''0'' @ s"

text \<open>\<^verbatim>\<open>date::text\<close> in the ISO style: \<^verbatim>\<open>YYYY-MM-DD\<close>.\<close>

definition date_text :: "sql_date \<Rightarrow> string" where
  "date_text d =
     (case d of (y, m, dd) \<Rightarrow>
        zero_pad 4 (nat_text y) @ ''-'' @ zero_pad 2 (nat_text m) @ ''-'' @ zero_pad 2 (nat_text dd))"

subsection \<open>ILIKE\<close>

text \<open>
  \<^verbatim>\<open>LIKE\<close>: in the pattern, \<^verbatim>\<open>%\<close> matches any run of characters, \<^verbatim>\<open>_\<close> any one
  character, a backslash makes the next pattern character literal, and any other
  character matches itself. First argument the pattern, second the text. A pattern that
  ends in a lone backslash is an error in the database; the patterns built by data.ts
  all end in \<^verbatim>\<open>%\<close>, so none does, and the model answers False there.
\<close>

fun like_match :: "string \<Rightarrow> string \<Rightarrow> bool" where
  "like_match [] [] = True"
| "like_match [] (c # t) = False"
| "like_match (p # ps) [] = (if p = CHR ''%'' then like_match ps [] else False)"
| "like_match (p # ps) (c # t) =
     (if p = CHR ''%'' then like_match ps (c # t) \<or> like_match (p # ps) t
      else if p = CHR 0x5C then
        (case ps of [] \<Rightarrow> False | q # qs \<Rightarrow> c = q \<and> like_match qs t)
      else if p = CHR ''_'' then like_match ps t
      else c = p \<and> like_match ps t)"

text \<open>The three characters that \<^verbatim>\<open>LIKE\<close> reads specially.\<close>

definition like_special :: "char \<Rightarrow> bool" where
  "like_special c = (c = CHR ''%'' \<or> c = CHR ''_'' \<or> c = CHR 0x5C)"

text \<open>
  Case folding as the database does it: by its character type. Folding changes letters
  only, so \<^verbatim>\<open>%\<close>, \<^verbatim>\<open>_\<close> and the backslash are left as they are and no character is folded
  to one of them; for every other character the world's \<open>fold_case\<close> decides.
\<close>

definition lower_char :: "world \<Rightarrow> char \<Rightarrow> char" where
  "lower_char w c =
     (if like_special c \<or> like_special (fold_case w c) then c else fold_case w c)"

text \<open>\<^verbatim>\<open>text ILIKE pattern\<close>: \<^verbatim>\<open>LIKE\<close> after folding the case of both sides.\<close>

definition ilike :: "world \<Rightarrow> string \<Rightarrow> string \<Rightarrow> bool" where
  "ilike w s pat = like_match (map (lower_char w) pat) (map (lower_char w) s)"

text \<open>The template literal \<^verbatim>\<open>`%${query}%`\<close>.\<close>

definition like_pattern :: "string \<Rightarrow> string" where
  "like_pattern query = ''%'' @ query @ ''%''"

subsection \<open>Clauses shared by the statements\<close>

text \<open>\<^verbatim>\<open>FROM invoices JOIN customers ON invoices.customer_id = customers.id\<close>\<close>

definition invoices_join_customers :: "database \<Rightarrow> (invoice \<times> customer) list" where
  "invoices_join_customers d =
     concat (map (\<lambda>i. map (Pair i) (filter (\<lambda>c. inv_customer_id i = cust_id c) (customers d)))
                 (invoices d))"

text \<open>
  The \<^verbatim>\<open>WHERE\<close> clause of \<^verbatim>\<open>fetchFilteredInvoices\<close> and \<^verbatim>\<open>fetchInvoicesPages\<close>, the
  same text in both.
\<close>

definition invoice_where :: "world \<Rightarrow> string \<Rightarrow> invoice \<times> customer \<Rightarrow> bool" where
  "invoice_where w pat r =
     (case r of (i, c) \<Rightarrow>
        ilike w (cust_name c) pat \<or>
        ilike w (cust_email c) pat \<or>
        ilike w (int_text (inv_amount i)) pat \<or>
        ilike w (date_text (inv_date i)) pat \<or>
        ilike w (inv_status i) pat)"

text \<open>
  What \<^verbatim>\<open>ORDER BY invoices.date DESC\<close> promises of the rows \<open>out\<close> returned for the rows
  \<open>rows\<close>: the same rows, each as often, with no date before a later one. Which of the
  lists that satisfy this the database returns is the world's \<open>date_desc_order\<close>.
\<close>

definition date_desc_arrangement ::
    "(invoice \<times> customer) list \<Rightarrow> (invoice \<times> customer) list \<Rightarrow> bool" where
  "date_desc_arrangement rows out =
     (mset out = mset rows \<and>
      sorted_wrt (\<lambda>a b. inv_date (fst b) \<le> inv_date (fst a)) out)"

text \<open>\<^verbatim>\<open>LIMIT n OFFSET k\<close>; the database rejects a negative offset.\<close>

definition limit_offset :: "nat \<Rightarrow> int \<Rightarrow> 'a list \<Rightarrow> js_error + 'a list" where
  "limit_offset n k rows =
     (if k < 0 then Inl (Error ''OFFSET must not be negative'')
      else Inr (take n (drop (nat k) rows)))"

text \<open>\<^verbatim>\<open>SUM\<close> over no rows is \<^verbatim>\<open>NULL\<close>.\<close>

definition sql_sum :: "int list \<Rightarrow> int option" where
  "sql_sum xs = (if xs = [] then None else Some (sum_list xs))"

section \<open>Row shapes and statements (data.ts)\<close>

text \<open>
  The row types imported from \<^verbatim>\<open>./definitions\<close>, as far as the \<^verbatim>\<open>SELECT\<close> lists and the
  row mappers of data.ts determine them. A row whose amount is replaced by text or by a
  decimal has a second record for the mapped shape.
\<close>

record latest_invoice_raw =
  lir_amount :: int
  lir_name :: string
  lir_image_url :: string
  lir_email :: string
  lir_id :: string

record latest_invoice =
  li_amount :: string
  li_name :: string
  li_image_url :: string
  li_email :: string
  li_id :: string

record invoices_table =
  it_id :: string
  it_amount :: int
  it_date :: sql_date
  it_status :: string
  it_name :: string
  it_email :: string
  it_image_url :: string

record invoice_form_raw =
  ifr_id :: string
  ifr_customer_id :: string
  ifr_amount :: int
  ifr_status :: string

record invoice_form =
  if_id :: string
  if_customer_id :: string
  if_amount :: rat
  if_status :: string

record customer_field =
  cf_id :: string
  cf_name :: string

record customers_table_raw =
  ctr_id :: string
  ctr_name :: string
  ctr_email :: string
  ctr_image_url :: string
  ctr_total_invoices :: nat
  ctr_total_pending :: "int option"
  ctr_total_paid :: "int option"

record customers_table =
  ct_id :: string
  ct_name :: string
  ct_email :: string
  ct_image_url :: string
  ct_total_invoices :: nat
  ct_total_pending :: string
  ct_total_paid :: string

record count_row =
  count_col :: nat

record status_sums =
  paid :: "int option"
  pending :: "int option"

record card_data =
  numberOfCustomers :: int
  numberOfInvoices :: int
  totalPaidInvoices :: string
  totalPendingInvoices :: string

text \<open>\<^verbatim>\<open>SELECT * FROM revenue\<close>\<close>

definition select_revenue :: "world \<Rightarrow> js_error + revenue list" where
  "select_revenue w = Inr (revenue_rows (db w))"

text \<open>The statement of \<^verbatim>\<open>fetchLatestInvoices\<close>: \<^verbatim>\<open>... ORDER BY invoices.date DESC LIMIT 5\<close>\<close>

definition latest_row :: "invoice \<times> customer \<Rightarrow> latest_invoice_raw" where
  "latest_row r =
     (case r of (i, c) \<Rightarrow>
        \<lparr> lir_amount = inv_amount i, lir_name = cust_name c, lir_image_url = cust_image_url c,
          lir_email = cust_email c, lir_id = inv_id i \<rparr>)"

definition select_latest_invoices :: "world \<Rightarrow> js_error + latest_invoice_raw list" where
  "select_latest_invoices w =
     Inr (map latest_row (take 5 (date_desc_order w (invoices_join_customers (db w)))))"

text \<open>\<^verbatim>\<open>SELECT COUNT(*) FROM invoices\<close> and \<^verbatim>\<open>SELECT COUNT(*) FROM customers\<close>\<close>

definition count_invoices :: "world \<Rightarrow> js_error + count_row list" where
  "count_invoices w = Inr [\<lparr> count_col = length (invoices (db w)) \<rparr>]"

definition count_customers :: "world \<Rightarrow> js_error + count_row list" where
  "count_customers w = Inr [\<lparr> count_col = length (customers (db w)) \<rparr>]"

text \<open>The two conditional sums of \<^verbatim>\<open>fetchCardData\<close>.\<close>

definition sum_invoice_status :: "world \<Rightarrow> js_error + status_sums list" where
  "sum_invoice_status w =
     Inr [\<lparr> paid = sql_sum (map (\<lambda>i. if inv_status i = ''paid'' then inv_amount i else 0)
                               (invoices (db w))),
            pending = sql_sum (map (\<lambda>i. if inv_status i = ''pending'' then inv_amount i else 0)
                                  (invoices (db w))) \<rparr>]"

text \<open>
  The statement of \<^verbatim>\<open>fetchFilteredInvoices\<close>, with its three parameters: the pattern,
  the limit and the offset.
\<close>

definition invoices_table_row :: "invoice \<times> customer \<Rightarrow> invoices_table" where
  "invoices_table_row r =
     (case r of (i, c) \<Rightarrow>
        \<lparr> it_id = inv_id i, it_amount = inv_amount i, it_date = inv_date i, it_status = inv_status i,
          it_name = cust_name c, it_email = cust_email c, it_image_url = cust_image_url c \<rparr>)"

definition select_filtered_invoices ::
    "string \<Rightarrow> nat \<Rightarrow> int \<Rightarrow> world \<Rightarrow> js_error + invoices_table list" where
  "select_filtered_invoices pat n k w =
     (case limit_offset n k
             (date_desc_order w
                (filter (invoice_where w pat) (invoices_join_customers (db w)))) of
        Inl err \<Rightarrow> Inl err
      | Inr rows \<Rightarrow> Inr (map invoices_table_row rows))"

text \<open>The statement of \<^verbatim>\<open>fetchInvoicesPages\<close>: \<^verbatim>\<open>SELECT COUNT(*)\<close> over the same join and filter.\<close>

definition count_filtered_invoices :: "string \<Rightarrow> world \<Rightarrow> js_error + count_row list" where
  "count_filtered_invoices pat w =
     Inr [\<lparr> count_col =
             length (filter (invoice_where w pat) (invoices_join_customers (db w))) \<rparr>]"

text \<open>The statement of \<^verbatim>\<open>fetchInvoiceById\<close>: \<^verbatim>\<open>... FROM invoices WHERE invoices.id = ${id}\<close>\<close>

definition invoice_form_row :: "invoice \<Rightarrow> invoice_form_raw" where
  "invoice_form_row i =
     \<lparr> ifr_id = inv_id i, ifr_customer_id = inv_customer_id i, ifr_amount = inv_amount i,
       ifr_status = inv_status i \<rparr>"

definition select_invoice_by_id :: "string \<Rightarrow> world \<Rightarrow> js_error + invoice_form_raw list" where
  "select_invoice_by_id ident w =
     Inr (map invoice_form_row (filter (\<lambda>i. inv_id i = ident) (invoices (db w))))"

text \<open>
  \<^verbatim>\<open>SELECT id, name FROM customers ORDER BY name ASC\<close>, in the order the database
  gives the customers.
\<close>

definition select_customers :: "world \<Rightarrow> js_error + customer_field list" where
  "select_customers w =
     Inr (map (\<lambda>c. \<lparr> cf_id = cust_id c, cf_name = cust_name c \<rparr>)
            (name_asc_order w (customers (db w))))"

text \<open>
  The statement of \<^verbatim>\<open>fetchFilteredCustomers\<close>. \<^verbatim>\<open>LEFT JOIN\<close> pairs a customer with each
  of its invoices, or with one all-\<^verbatim>\<open>NULL\<close> invoice when it has none. \<^verbatim>\<open>GROUP BY\<close> names
  every selected customer column, so a group is the rows of one distinct customer row.
  \<^verbatim>\<open>COUNT(invoices.id)\<close> counts the rows with an invoice; in the sums a \<^verbatim>\<open>NULL\<close> status
  takes the \<^verbatim>\<open>ELSE 0\<close> branch. \<^verbatim>\<open>ORDER BY customers.name ASC\<close> orders the groups, one
  per distinct customer row, as the database orders those customers.
\<close>

definition left_join_invoices :: "database \<Rightarrow> customer \<Rightarrow> invoice option list" where
  "left_join_invoices d c =
     (let ms = filter (\<lambda>i. cust_id c = inv_customer_id i) (invoices d)
      in if ms = [] then [None] else map Some ms)"

definition customer_where :: "world \<Rightarrow> string \<Rightarrow> customer \<Rightarrow> bool" where
  "customer_where w pat c = (ilike w (cust_name c) pat \<or> ilike w (cust_email c) pat)"

definition amount_if_status :: "string \<Rightarrow> invoice option \<Rightarrow> int" where
  "amount_if_status st m =
     (case m of None \<Rightarrow> 0 | Some i \<Rightarrow> if inv_status i = st then inv_amount i else 0)"

definition customer_group_row :: "database \<Rightarrow> customer list \<Rightarrow> customer \<Rightarrow> customers_table_raw" where
  "customer_group_row d kept g =
     (let members = concat (map (left_join_invoices d) (filter (\<lambda>c. c = g) kept))
      in \<lparr> ctr_id = cust_id g, ctr_name = cust_name g, ctr_email = cust_email g,
           ctr_image_url = cust_image_url g,
           ctr_total_invoices = length (filter (\<lambda>m. m \<noteq> None) members),
           ctr_total_pending = sql_sum (map (amount_if_status ''pending'') members),
           ctr_total_paid = sql_sum (map (amount_if_status ''paid'') members) \<rparr>)"

definition select_filtered_customers :: "string \<Rightarrow> world \<Rightarrow> js_error + customers_table_raw list" where
  "select_filtered_customers pat w =
     (let kept = filter (customer_where w pat) (customers (db w))
      in Inr (map (customer_group_row (db w) kept) (name_asc_order w (remdups kept))))"

text \<open>\<^verbatim>\<open>SELECT 1\<close>\<close>

definition select_one :: "world \<Rightarrow> js_error + nat list" where
  "select_one w = Inr [1]"

section \<open>Query functions (data.ts)\<close>

text \<open>
  What a call of an \<^verbatim>\<open>async\<close> function leaves behind: the promise settles with a value
  (\<open>Inr\<close>) or rejects with a thrown value (\<open>Inl\<close>), and lines are written to the console.
  Every function below calls \<^verbatim>\<open>getSql()\<close> before its \<^verbatim>\<open>try\<close> block, so what \<^verbatim>\<open>getSql\<close>
  throws rejects the promise, while what the statement throws is caught.
  A console line is recorded by the function that wrote it and, for \<^verbatim>\<open>console.error\<close>,
  the error it printed; the wording of the messages is not modelled.
\<close>

datatype log_entry = Warn string | LogError string js_error

record 'a outcome =
  returned :: "js_error + 'a"
  logged :: "log_entry list"

text \<open>
  \<^verbatim>\<open>formatCurrency\<close> is imported from \<^verbatim>\<open>./utils\<close>; it is a parameter of every function
  that calls it.
\<close>

definition SAFE_EMPTY_REVENUE :: "revenue list" where
  "SAFE_EMPTY_REVENUE = []"

definition SAFE_EMPTY_INVOICES :: "latest_invoice list" where
  "SAFE_EMPTY_INVOICES = []"

definition SAFE_CARD_DATA :: "(int \<Rightarrow> string) \<Rightarrow> card_data" where
  "SAFE_CARD_DATA formatCurrency =
     \<lparr> numberOfCustomers = 0, numberOfInvoices = 0,
       totalPaidInvoices = formatCurrency 0, totalPendingInvoices = formatCurrency 0 \<rparr>"

definition ITEMS_PER_PAGE :: nat where
  "ITEMS_PER_PAGE = 6"

definition fetchRevenue :: "env \<Rightarrow> world \<Rightarrow> holder \<Rightarrow> revenue list outcome \<times> holder" where
  "fetchRevenue e w h =
     (case getSql (postgres_throws w) e h of
        (Inl thrown, h') \<Rightarrow> (\<lparr> returned = Inl thrown, logged = [] \<rparr>, h')
      | (Inr None, h') \<Rightarrow> (\<lparr> returned = Inr SAFE_EMPTY_REVENUE, logged = [Warn ''fetchRevenue''] \<rparr>, h')
      | (Inr (Some sql), h') \<Rightarrow>
          (case sql_exec w SelectRevenue select_revenue of
             Inr data \<Rightarrow> (\<lparr> returned = Inr data, logged = [] \<rparr>, h')
           | Inl err \<Rightarrow>
               (\<lparr> returned = Inr SAFE_EMPTY_REVENUE, logged = [LogError ''fetchRevenue'' err] \<rparr>, h')))"

definition format_latest :: "(int \<Rightarrow> string) \<Rightarrow> latest_invoice_raw \<Rightarrow> latest_invoice" where
  "format_latest formatCurrency invoice =
     \<lparr> li_amount = formatCurrency (lir_amount invoice), li_name = lir_name invoice,
       li_image_url = lir_image_url invoice, li_email = lir_email invoice, li_id = lir_id invoice \<rparr>"

definition fetchLatestInvoices ::
    "(int \<Rightarrow> string) \<Rightarrow> env \<Rightarrow> world \<Rightarrow> holder \<Rightarrow> latest_invoice list outcome \<times> holder" where
  "fetchLatestInvoices formatCurrency e w h =
     (case getSql (postgres_throws w) e h of
        (Inl thrown, h') \<Rightarrow> (\<lparr> returned = Inl thrown, logged = [] \<rparr>, h')
      | (Inr None, h') \<Rightarrow>
          (\<lparr> returned = Inr SAFE_EMPTY_INVOICES, logged = [Warn ''fetchLatestInvoices''] \<rparr>, h')
      | (Inr (Some sql), h') \<Rightarrow>
          (case sql_exec w SelectLatestInvoices select_latest_invoices of
             Inr data \<Rightarrow> (\<lparr> returned = Inr (map (format_latest formatCurrency) data), logged = [] \<rparr>, h')
           | Inl err \<Rightarrow>
               (\<lparr> returned = Inr SAFE_EMPTY_INVOICES,
                  logged = [LogError ''fetchLatestInvoices'' err] \<rparr>, h')))"

text \<open>
  \<^verbatim>\<open>Promise.all\<close> of three statements: the three results, or the rejection of one that
  failed (the first in the array, in the model).
\<close>

definition promise_all3 ::
    "js_error + 'a \<Rightarrow> js_error + 'b \<Rightarrow> js_error + 'c \<Rightarrow> js_error + ('a \<times> 'b \<times> 'c)" where
  "promise_all3 a b c =
     (case a of Inl err \<Rightarrow> Inl err
      | Inr x \<Rightarrow> (case b of Inl err \<Rightarrow> Inl err
                  | Inr y \<Rightarrow> (case c of Inl err \<Rightarrow> Inl err | Inr z \<Rightarrow> Inr (x, y, z))))"

text \<open>\<^verbatim>\<open>Number(rows?.[0]?.count ?? 0)\<close> and \<^verbatim>\<open>Number(rows?.[0]?.paid ?? 0)\<close>\<close>

definition first_count :: "count_row list \<Rightarrow> nat" where
  "first_count rows = (case rows of [] \<Rightarrow> 0 | r # _ \<Rightarrow> count_col r)"

definition first_sum :: "(status_sums \<Rightarrow> int option) \<Rightarrow> status_sums list \<Rightarrow> int" where
  "first_sum col rows =
     (case rows of [] \<Rightarrow> 0 | r # _ \<Rightarrow> (case col r of None \<Rightarrow> 0 | Some v \<Rightarrow> v))"

definition fetchCardData ::
    "(int \<Rightarrow> string) \<Rightarrow> env \<Rightarrow> world \<Rightarrow> holder \<Rightarrow> card_data outcome \<times> holder" where
  "fetchCardData formatCurrency e w h =
     (case getSql (postgres_throws w) e h of
        (Inl thrown, h') \<Rightarrow> (\<lparr> returned = Inl thrown, logged = [] \<rparr>, h')
      | (Inr None, h') \<Rightarrow>
          (\<lparr> returned = Inr (SAFE_CARD_DATA formatCurrency), logged = [Warn ''fetchCardData''] \<rparr>, h')
      | (Inr (Some sql), h') \<Rightarrow>
          (case promise_all3 (sql_exec w CountInvoices count_invoices)
                             (sql_exec w CountCustomers count_customers)
                             (sql_exec w SumInvoiceStatus sum_invoice_status) of
             Inr (d0, d1, d2) \<Rightarrow>
               (\<lparr> returned = Inr \<lparr> numberOfCustomers = int (first_count d1),
                                   numberOfInvoices = int (first_count d0),
                                   totalPaidInvoices = formatCurrency (first_sum paid d2),
                                   totalPendingInvoices = formatCurrency (first_sum pending d2) \<rparr>,
                  logged = [] \<rparr>, h')
           | Inl err \<Rightarrow>
               (\<lparr> returned = Inr (SAFE_CARD_DATA formatCurrency),
                  logged = [LogError ''fetchCardData'' err] \<rparr>, h')))"

definition fetchFilteredInvoices ::
    "env \<Rightarrow> world \<Rightarrow> holder \<Rightarrow> string \<Rightarrow> int \<Rightarrow> invoices_table list outcome \<times> holder" where
  "fetchFilteredInvoices e w h query currentPage =
     (case getSql (postgres_throws w) e h of
        (Inl thrown, h') \<Rightarrow> (\<lparr> returned = Inl thrown, logged = [] \<rparr>, h')
      | (Inr None, h') \<Rightarrow> (\<lparr> returned = Inr [], logged = [Warn ''fetchFilteredInvoices''] \<rparr>, h')
      | (Inr (Some sql), h') \<Rightarrow>
          (let offset = (currentPage - 1) * int ITEMS_PER_PAGE
           in case sql_exec w SelectFilteredInvoices
                     (select_filtered_invoices (like_pattern query) ITEMS_PER_PAGE offset) of
                Inr invoices' \<Rightarrow> (\<lparr> returned = Inr invoices', logged = [] \<rparr>, h')
              | Inl err \<Rightarrow>
                  (\<lparr> returned = Inr [], logged = [LogError ''fetchFilteredInvoices'' err] \<rparr>, h')))"

definition fetchInvoicesPages :: "env \<Rightarrow> world \<Rightarrow> holder \<Rightarrow> string \<Rightarrow> int outcome \<times> holder" where
  "fetchInvoicesPages e w h query =
     (case getSql (postgres_throws w) e h of
        (Inl thrown, h') \<Rightarrow> (\<lparr> returned = Inl thrown, logged = [] \<rparr>, h')
      | (Inr None, h') \<Rightarrow> (\<lparr> returned = Inr 0, logged = [Warn ''fetchInvoicesPages''] \<rparr>, h')
      | (Inr (Some sql), h') \<Rightarrow>
          (case sql_exec w CountFilteredInvoices (count_filtered_invoices (like_pattern query)) of
             Inr data \<Rightarrow>
               (let totalPages = \<lceil>(of_nat (first_count data) :: rat) / of_nat ITEMS_PER_PAGE\<rceil>
                in (\<lparr> returned = Inr totalPages, logged = [] \<rparr>, h'))
           | Inl err \<Rightarrow>
               (\<lparr> returned = Inr 0, logged = [LogError ''fetchInvoicesPages'' err] \<rparr>, h')))"

text \<open>
  \<^verbatim>\<open>fetchInvoiceById\<close> returns \<^verbatim>\<open>invoice[0]\<close>, which is \<^verbatim>\<open>undefined\<close> (\<open>None\<close>) when no
  row has the id. The division \<^verbatim>\<open>invoice.amount / 100\<close> is taken exactly.
\<close>

definition cents_to_dollars :: "invoice_form_raw \<Rightarrow> invoice_form" where
  "cents_to_dollars invoice =
     \<lparr> if_id = ifr_id invoice, if_customer_id = ifr_customer_id invoice,
       if_amount = of_int (ifr_amount invoice) / 100, if_status = ifr_status invoice \<rparr>"

definition fetchInvoiceById ::
    "env \<Rightarrow> world \<Rightarrow> holder \<Rightarrow> string \<Rightarrow> invoice_form option outcome \<times> holder" where
  "fetchInvoiceById e w h ident =
     (case getSql (postgres_throws w) e h of
        (Inl thrown, h') \<Rightarrow> (\<lparr> returned = Inl thrown, logged = [] \<rparr>, h')
      | (Inr None, h') \<Rightarrow> (\<lparr> returned = Inr None, logged = [Warn ''fetchInvoiceById''] \<rparr>, h')
      | (Inr (Some sql), h') \<Rightarrow>
          (case sql_exec w SelectInvoiceById (select_invoice_by_id ident) of
             Inr data \<Rightarrow>
               (let invoice = map cents_to_dollars data
                in (\<lparr> returned = Inr (case invoice of [] \<Rightarrow> None | x # _ \<Rightarrow> Some x),
                      logged = [] \<rparr>, h'))
           | Inl err \<Rightarrow>
               (\<lparr> returned = Inr None, logged = [LogError ''fetchInvoiceById'' err] \<rparr>, h')))"

definition fetchCustomers :: "env \<Rightarrow> world \<Rightarrow> holder \<Rightarrow> customer_field list outcome \<times> holder" where
  "fetchCustomers e w h =
     (case getSql (postgres_throws w) e h of
        (Inl thrown, h') \<Rightarrow> (\<lparr> returned = Inl thrown, logged = [] \<rparr>, h')
      | (Inr None, h') \<Rightarrow> (\<lparr> returned = Inr [], logged = [Warn ''fetchCustomers''] \<rparr>, h')
      | (Inr (Some sql), h') \<Rightarrow>
          (case sql_exec w SelectCustomers select_customers of
             Inr customers' \<Rightarrow> (\<lparr> returned = Inr customers', logged = [] \<rparr>, h')
           | Inl err \<Rightarrow> (\<lparr> returned = Inr [], logged = [LogError ''fetchCustomers'' err] \<rparr>, h')))"

definition format_customer :: "(int \<Rightarrow> string) \<Rightarrow> customers_table_raw \<Rightarrow> customers_table" where
  "format_customer formatCurrency customer =
     \<lparr> ct_id = ctr_id customer, ct_name = ctr_name customer, ct_email = ctr_email customer,
       ct_image_url = ctr_image_url customer, ct_total_invoices = ctr_total_invoices customer,
       ct_total_pending =
         formatCurrency (case ctr_total_pending customer of None \<Rightarrow> 0 | Some v \<Rightarrow> v),
       ct_total_paid =
         formatCurrency (case ctr_total_paid customer of None \<Rightarrow> 0 | Some v \<Rightarrow> v) \<rparr>"

definition fetchFilteredCustomers ::
    "(int \<Rightarrow> string) \<Rightarrow> env \<Rightarrow> world \<Rightarrow> holder \<Rightarrow> string \<Rightarrow> customers_table list outcome \<times> holder" where
  "fetchFilteredCustomers formatCurrency e w h query =
     (case getSql (postgres_throws w) e h of
        (Inl thrown, h') \<Rightarrow> (\<lparr> returned = Inl thrown, logged = [] \<rparr>, h')
      | (Inr None, h') \<Rightarrow> (\<lparr> returned = Inr [], logged = [Warn ''fetchFilteredCustomers''] \<rparr>, h')
      | (Inr (Some sql), h') \<Rightarrow>
          (case sql_exec w SelectFilteredCustomers (select_filtered_customers (like_pattern query)) of
             Inr data \<Rightarrow>
               (\<lparr> returned = Inr (map (format_customer formatCurrency) data), logged = [] \<rparr>, h')
           | Inl err \<Rightarrow>
               (\<lparr> returned = Inr [], logged = [LogError ''fetchFilteredCustomers'' err] \<rparr>, h')))"

section \<open>Health check (database.ts) and health endpoint\<close>

text \<open>
  \<^verbatim>\<open>checkDatabaseHealth\<close> runs \<^verbatim>\<open>SELECT 1\<close> on the client of database.ts, which exists
  whenever that module has loaded.
\<close>

definition checkDatabaseHealth :: "world \<Rightarrow> bool outcome" where
  "checkDatabaseHealth w =
     (case sql_exec w SelectOne select_one of
        Inr rows \<Rightarrow> \<lparr> returned = Inr True, logged = [] \<rparr>
      | Inl err \<Rightarrow> \<lparr> returned = Inr False, logged = [LogError ''checkDatabaseHealth'' err] \<rparr>)"

record health_body =
  hb_status :: string
  hb_message :: string
  hb_error :: "string option"
  hb_timestamp :: string
  hb_database :: "string option"

record response =
  http_status :: nat
  body :: health_body

text \<open>\<^verbatim>\<open>error instanceof Error ? error.message : "Unknown error"\<close>\<close>

definition error_message :: "js_error \<Rightarrow> string" where
  "error_message err = (case err of Error m \<Rightarrow> m | NonError v \<Rightarrow> ''Unknown error'')"

text \<open>
  The body of \<^verbatim>\<open>GET\<close> once \<^verbatim>\<open>await checkDatabaseHealth()\<close> has settled, with the value
  or the rejection it settled with; \<open>now\<close> is \<^verbatim>\<open>new Date().toISOString()\<close>.
\<close>

definition GET_response :: "string \<Rightarrow> js_error + bool \<Rightarrow> response outcome" where
  "GET_response now health =
     (case health of
        Inr isDatabaseHealthy \<Rightarrow>
          if \<not> isDatabaseHealthy then
            \<lparr> returned = Inr \<lparr> http_status = 503,
                                body = \<lparr> hb_status = ''error'', hb_message = ''Database connection failed'',
                                         hb_error = None, hb_timestamp = now, hb_database = None \<rparr> \<rparr>,
              logged = [] \<rparr>
          else
            \<lparr> returned = Inr \<lparr> http_status = 200,
                                body = \<lparr> hb_status = ''healthy'', hb_message = ''All systems operational'',
                                         hb_error = None, hb_timestamp = now,
                                         hb_database = Some ''connected'' \<rparr> \<rparr>,
              logged = [] \<rparr>
      | Inl err \<Rightarrow>
          \<lparr> returned = Inr \<lparr> http_status = 500,
                              body = \<lparr> hb_status = ''error'', hb_message = ''Health check failed'',
                                       hb_error = Some (error_message err), hb_timestamp = now,
                                       hb_database = None \<rparr> \<rparr>,
            logged = [LogError ''GET'' err] \<rparr>)"

definition GET :: "string \<Rightarrow> world \<Rightarrow> response outcome" where
  "GET now w =
     (let health = checkDatabaseHealth w;
          r = GET_response now (returned health)
      in r\<lparr> logged := logged health @ logged r \<rparr>)"

section \<open>The specification's words\<close>

text \<open>
  ``The query is a case-insensitive substring of the field'': after case folding, the
  query occurs in the field as a run of consecutive characters. Case is the database's,
  so the folding is the one its \<^verbatim>\<open>ILIKE\<close> uses. Then the filter the specification
  describes: at least one of the five fields contains the query.
\<close>

definition ci_substring :: "world \<Rightarrow> string \<Rightarrow> string \<Rightarrow> bool" where
  "ci_substring w q s = sublist (map (lower_char w) q) (map (lower_char w) s)"

definition spec_invoice_matches :: "world \<Rightarrow> string \<Rightarrow> invoice \<times> customer \<Rightarrow> bool" where
  "spec_invoice_matches w q r =
     (case r of (i, c) \<Rightarrow>
        ci_substring w q (cust_name c) \<or>
        ci_substring w q (cust_email c) \<or>
        ci_substring w q (int_text (inv_amount i)) \<or>
        ci_substring w q (date_text (inv_date i)) \<or>
        ci_substring w q (inv_status i))"

text \<open>A query without the three characters that \<^verbatim>\<open>LIKE\<close> reads specially.\<close>

definition wildcard_free :: "string \<Rightarrow> bool" where
  "wildcard_free q = (CHR ''%'' \<notin> set q \<and> CHR ''_'' \<notin> set q \<and> CHR 0x5C \<notin> set q)"

text \<open>Every invoice names exactly one row of the customers table.\<close>

definition one_customer_each :: "database \<Rightarrow> bool" where
  "one_customer_each d =
     list_all (\<lambda>i. length (filter (\<lambda>c. inv_customer_id i = cust_id c) (customers d)) = 1) (invoices d)"

section \<open>Example data\<close>

text \<open>
  A process environment with \<^verbatim>\<open>POSTGRES_URL\<close> set and one whose URL the constructor
  rejects, the client and module state the first call of \<^verbatim>\<open>getSql\<close> makes, a small
  database, a world in which every statement succeeds and one in which every statement
  fails, and a stand-in for \<^verbatim>\<open>formatCurrency\<close>. The example world folds the ASCII letters
  only, returns rows of equal date in the reverse of table order and orders names by
  character code.
\<close>

definition example_env :: env where
  "example_env = [''POSTGRES_URL'' \<mapsto> ''postgres://db'']"

definition garbage_env :: env where
  "garbage_env = [''POSTGRES_URL'' \<mapsto> ''garbage'']"

definition example_client :: client where
  "example_client =
     \<lparr> handle = 0, client_url = ''postgres://db'', client_ssl = SslMode ''require'' \<rparr>"


definition example_db :: database where
  "example_db =
     \<lparr> invoices =
         [\<lparr> inv_id = ''i1'', inv_customer_id = ''c1'', inv_amount = 12345, inv_status = ''paid'',
            inv_date = (2024, 2, 5) \<rparr>,
          \<lparr> inv_id = ''i2'', inv_customer_id = ''c1'', inv_amount = 500, inv_status = ''pending'',
            inv_date = (2024, 3, 9) \<rparr>],
       customers =
         [\<lparr> cust_id = ''c1'', cust_name = ''Ann Lee'', cust_email = ''ann@x.io'',
            cust_image_url = ''/ann.png'' \<rparr>],
       revenue_rows = [\<lparr> rev_month = ''Jan'', rev_revenue = 2000 \<rparr>] \<rparr>"

definition ascii_lower :: "char \<Rightarrow> char" where
  "ascii_lower c =
     (let n = (of_char c :: nat) in if 65 \<le> n \<and> n \<le> 90 then char_of (n + 32) else c)"

definition example_world :: world where
  "example_world =
     \<lparr> db = example_db,
       fails = (\<lambda>s. None),
       postgres_throws = (\<lambda>u. if u = ''garbage'' then Some (Error ''Invalid URL'') else None),
       fold_case = ascii_lower,
       date_desc_order = (\<lambda>rows. rev (sort_key (\<lambda>r. inv_date (fst r)) rows)),
       name_asc_order = sort_key cust_name \<rparr>"

definition down_world :: world where
  "down_world = example_world\<lparr> fails := (\<lambda>s. Some (Error ''ECONNREFUSED'')) \<rparr>"

definition example_format :: "int \<Rightarrow> string" where
  "example_format c = ''$'' @ int_text c"

text \<open>A database in which an invoice names a customer that has no row.\<close>

definition orphan_world :: world where
  "orphan_world =
     example_world
       \<lparr> db := \<lparr> invoices =
                    [\<lparr> inv_id = ''i1'', inv_customer_id = ''c1'', inv_amount = 12345,
                       inv_status = ''paid'', inv_date = (2024, 2, 5) \<rparr>],
                  customers = [], revenue_rows = [] \<rparr> \<rparr>"

text \<open>
  A database whose two invoices have the same date, in a world that returns rows of
  equal date in table order.
\<close>

definition tied_world :: world where
  "tied_world =
     example_world
       \<lparr> db := \<lparr> invoices =
                    [\<lparr> inv_id = ''t1'', inv_customer_id = ''c1'', inv_amount = 100,
                       inv_status = ''paid'', inv_date = (2024, 2, 5) \<rparr>,
                     \<lparr> inv_id = ''t2'', inv_customer_id = ''c1'', inv_amount = 200,
                       inv_status = ''paid'', inv_date = (2024, 2, 5) \<rparr>],
                  customers =
                    [\<lparr> cust_id = ''c1'', cust_name = ''Ann Lee'', cust_email = ''ann@x.io'',
                       cust_image_url = ''/ann.png'' \<rparr>],
                  revenue_rows = [] \<rparr>,
         date_desc_order := (\<lambda>rows. rows) \<rparr>"

text \<open>
  A world whose database folds case as Latin-1 does: the ASCII letters, and the accented
  capitals \<open>0xC0\<close> to \<open>0xDE\<close> (but not the multiplication sign \<open>0xD7\<close>) to the letters 32
  places on. In it a customer whose name ends in a small e with acute accent, \<open>0xE9\<close>.
\<close>

definition latin1_lower :: "char \<Rightarrow> char" where
  "latin1_lower c =
     (let n = (of_char c :: nat)
      in if (65 \<le> n \<and> n \<le> 90) \<or> (192 \<le> n \<and> n \<le> 222 \<and> n \<noteq> 215) then char_of (n + 32) else c)"

definition latin1_world :: world where
  "latin1_world = example_world\<lparr> fold_case := latin1_lower \<rparr>"

definition rene_row :: "invoice \<times> customer" where
  "rene_row =
     (\<lparr> inv_id = ''i3'', inv_customer_id = ''c2'', inv_amount = 700, inv_status = ''paid'',
        inv_date = (2024, 4, 2) \<rparr>,
      \<lparr> cust_id = ''c2'', cust_name = ''Ren'' @ [CHR 0xE9], cust_email = ''rene@x.io'',
        cust_image_url = ''/rene.png'' \<rparr>)"

section \<open>Properties of the connection holder\<close>

lemma getSql_no_client_iff:
  "fst (getSql postgres e h) = Inr None \<longleftrightarrow> \<not> truthy (e ''POSTGRES_URL'')"
  by (simp add: getSql_def Let_def split: option.splits)

lemma getSql_stored:
  assumes "sqlClient h = Some c" and "truthy (e ''POSTGRES_URL'')"
  shows "getSql postgres e h = (Inr (Some c), h)"
  using assms by (simp add: getSql_def)








text \<open>
  C2. With only \<^verbatim>\<open>DATABASE_URL\<close> set, the resolver of database.ts accepts the URL, yet
  \<^verbatim>\<open>getSql\<close> of data.ts, which reads \<^verbatim>\<open>POSTGRES_URL\<close> alone, returns no client and
  constructs nothing, whatever the constructor would do with a URL.
\<close>

theorem getSql_ignores_DATABASE_URL:
  "getDatabaseConfig [''DATABASE_URL'' \<mapsto> ''postgresql://u:p@h:5432/db''] =
     Inr \<lparr> url = ''postgresql://u:p@h:5432/db'', ssl = SslMode ''prefer'', max_conn = 10,
           idle_timeout = 20, connect_timeout = 10, prepare = False \<rparr> \<and>
   getSql postgres [''DATABASE_URL'' \<mapsto> ''postgresql://u:p@h:5432/db''] holder_init =
     (Inr None, holder_init)"
  by (simp add: getDatabaseConfig_def getSql_def js_or_def truthy_def Let_def)

section \<open>Safe defaults of the query functions\<close>

text \<open>
  For each function: the safe default when \<^verbatim>\<open>getSql\<close> gives no client; the safe default
  when \<^verbatim>\<open>getSql\<close> returns and the statement fails; a settled promise whenever \<^verbatim>\<open>getSql\<close>
  returns; a rejected promise when \<^verbatim>\<open>getSql\<close> throws.
\<close>

lemma fetchRevenue_safe:
  "fst (getSql (postgres_throws w) e h) = Inr None \<Longrightarrow> returned (fst (fetchRevenue e w h)) = Inr SAFE_EMPTY_REVENUE"
  "fst (getSql (postgres_throws w) e h) = Inr r \<Longrightarrow> fails w SelectRevenue = Some err \<Longrightarrow>
     returned (fst (fetchRevenue e w h)) = Inr SAFE_EMPTY_REVENUE"
  "fst (getSql (postgres_throws w) e h) = Inr r \<Longrightarrow> \<exists>v. returned (fst (fetchRevenue e w h)) = Inr v"
  "fst (getSql (postgres_throws w) e h) = Inl thrown \<Longrightarrow> returned (fst (fetchRevenue e w h)) = Inl thrown"
  by (cases "getSql (postgres_throws w) e h";
      simp add: fetchRevenue_def sql_exec_def select_revenue_def split: option.splits sum.splits)+

lemma fetchLatestInvoices_safe:
  "fst (getSql (postgres_throws w) e h) = Inr None \<Longrightarrow> returned (fst (fetchLatestInvoices f e w h)) = Inr SAFE_EMPTY_INVOICES"
  "fst (getSql (postgres_throws w) e h) = Inr r \<Longrightarrow> fails w SelectLatestInvoices = Some err \<Longrightarrow>
     returned (fst (fetchLatestInvoices f e w h)) = Inr SAFE_EMPTY_INVOICES"
  "fst (getSql (postgres_throws w) e h) = Inr r \<Longrightarrow> \<exists>v. returned (fst (fetchLatestInvoices f e w h)) = Inr v"
  "fst (getSql (postgres_throws w) e h) = Inl thrown \<Longrightarrow> returned (fst (fetchLatestInvoices f e w h)) = Inl thrown"
  by (cases "getSql (postgres_throws w) e h";
      simp add: fetchLatestInvoices_def sql_exec_def  split: option.splits sum.splits)+

lemma fetchInvoicesPages_safe:
  "fst (getSql (postgres_throws w) e h) = Inr None \<Longrightarrow> returned (fst (fetchInvoicesPages e w h q)) = Inr 0"
  "fst (getSql (postgres_throws w) e h) = Inr r \<Longrightarrow> fails w CountFilteredInvoices = Some err \<Longrightarrow>
     returned (fst (fetchInvoicesPages e w h q)) = Inr 0"
  "fst (getSql (postgres_throws w) e h) = Inr r \<Longrightarrow> \<exists>v. returned (fst (fetchInvoicesPages e w h q)) = Inr v"
  "fst (getSql (postgres_throws w) e h) = Inl thrown \<Longrightarrow> returned (fst (fetchInvoicesPages e w h q)) = Inl thrown"
  by (cases "getSql (postgres_throws w) e h";
      simp add: fetchInvoicesPages_def sql_exec_def Let_def split: option.splits sum.splits)+

lemma fetchInvoiceById_safe:
  "fst (getSql (postgres_throws w) e h) = Inr None \<Longrightarrow> returned (fst (fetchInvoiceById e w h i)) = Inr None"
  "fst (getSql (postgres_throws w) e h) = Inr r \<Longrightarrow> fails w SelectInvoiceById = Some err \<Longrightarrow>
     returned (fst (fetchInvoiceById e w h i)) = Inr None"
  "fst (getSql (postgres_throws w) e h) = Inr r \<Longrightarrow> \<exists>v. returned (fst (fetchInvoiceById e w h i)) = Inr v"
  "fst (getSql (postgres_throws w) e h) = Inl thrown \<Longrightarrow> returned (fst (fetchInvoiceById e w h i)) = Inl thrown"
  by (cases "getSql (postgres_throws w) e h";
      simp add: fetchInvoiceById_def sql_exec_def Let_def split: option.splits sum.splits)+

lemma fetchCustomers_safe:
  "fst (getSql (postgres_throws w) e h) = Inr None \<Longrightarrow> returned (fst (fetchCustomers e w h)) = Inr []"
  "fst (getSql (postgres_throws w) e h) = Inr r \<Longrightarrow> fails w SelectCustomers = Some err \<Longrightarrow>
     returned (fst (fetchCustomers e w h)) = Inr []"
  "fst (getSql (postgres_throws w) e h) = Inr r \<Longrightarrow> \<exists>v. returned (fst (fetchCustomers e w h)) = Inr v"
  "fst (getSql (postgres_throws w) e h) = Inl thrown \<Longrightarrow> returned (fst (fetchCustomers e w h)) = Inl thrown"
  by (cases "getSql (postgres_throws w) e h";
      simp add: fetchCustomers_def sql_exec_def  split: option.splits sum.splits)+

lemma fetchFilteredCustomers_safe:
  "fst (getSql (postgres_throws w) e h) = Inr None \<Longrightarrow> returned (fst (fetchFilteredCustomers f e w h q)) = Inr []"
  "fst (getSql (postgres_throws w) e h) = Inr r \<Longrightarrow> fails w SelectFilteredCustomers = Some err \<Longrightarrow>
     returned (fst (fetchFilteredCustomers f e w h q)) = Inr []"
  "fst (getSql (postgres_throws w) e h) = Inr r \<Longrightarrow> \<exists>v. returned (fst (fetchFilteredCustomers f e w h q)) = Inr v"
  "fst (getSql (postgres_throws w) e h) = Inl thrown \<Longrightarrow> returned (fst (fetchFilteredCustomers f e w h q)) = Inl thrown"
  by (cases "getSql (postgres_throws w) e h";
      simp add: fetchFilteredCustomers_def sql_exec_def  split: option.splits sum.splits)+

lemma promise_all3_Inl:
  "a = Inl err \<or> b = Inl err \<or> c = Inl err \<Longrightarrow> \<exists>err'. promise_all3 a b c = Inl err'"
  by (auto simp: promise_all3_def split: sum.splits)

lemma fetchCardData_safe:
  "fst (getSql (postgres_throws w) e h) = Inr None \<Longrightarrow>
     returned (fst (fetchCardData f e w h)) = Inr (SAFE_CARD_DATA f)"
  "fst (getSql (postgres_throws w) e h) = Inr r \<Longrightarrow>
   fails w CountInvoices = Some err \<or> fails w CountCustomers = Some err \<or>
   fails w SumInvoiceStatus = Some err \<Longrightarrow>
     returned (fst (fetchCardData f e w h)) = Inr (SAFE_CARD_DATA f)"
  "fst (getSql (postgres_throws w) e h) = Inr r \<Longrightarrow>
     \<exists>v. returned (fst (fetchCardData f e w h)) = Inr v"
  "fst (getSql (postgres_throws w) e h) = Inl thrown \<Longrightarrow>
     returned (fst (fetchCardData f e w h)) = Inl thrown"
proof -
  show "fst (getSql (postgres_throws w) e h) = Inr None \<Longrightarrow>
          returned (fst (fetchCardData f e w h)) = Inr (SAFE_CARD_DATA f)"
    by (cases "getSql (postgres_throws w) e h") (simp add: fetchCardData_def)
  show "fst (getSql (postgres_throws w) e h) = Inr r \<Longrightarrow>
          \<exists>v. returned (fst (fetchCardData f e w h)) = Inr v"
    by (cases "getSql (postgres_throws w) e h")
       (simp add: fetchCardData_def split: option.splits sum.splits)
  show "fst (getSql (postgres_throws w) e h) = Inl thrown \<Longrightarrow>
          returned (fst (fetchCardData f e w h)) = Inl thrown"
    by (cases "getSql (postgres_throws w) e h") (simp add: fetchCardData_def)
  assume ok: "fst (getSql (postgres_throws w) e h) = Inr r"
  assume "fails w CountInvoices = Some err \<or> fails w CountCustomers = Some err \<or>
          fails w SumInvoiceStatus = Some err"
  then have "sql_exec w CountInvoices count_invoices = Inl err \<or>
             sql_exec w CountCustomers count_customers = Inl err \<or>
             sql_exec w SumInvoiceStatus sum_invoice_status = Inl err"
    by (auto simp: sql_exec_def)
  then obtain err' where
    "promise_all3 (sql_exec w CountInvoices count_invoices)
                  (sql_exec w CountCustomers count_customers)
                  (sql_exec w SumInvoiceStatus sum_invoice_status) = Inl err'"
    using promise_all3_Inl by blast
  with ok show "returned (fst (fetchCardData f e w h)) = Inr (SAFE_CARD_DATA f)"
    by (cases "getSql (postgres_throws w) e h") (simp add: fetchCardData_def split: option.splits)
qed

lemma select_filtered_invoices_negative:
  "k < 0 \<Longrightarrow> \<exists>err. select_filtered_invoices pat n k w = Inl err"
  by (simp add: select_filtered_invoices_def limit_offset_def)

lemma fetchFilteredInvoices_safe:
  "fst (getSql (postgres_throws w) e h) = Inr None \<Longrightarrow>
     returned (fst (fetchFilteredInvoices e w h q p)) = Inr []"
  "fst (getSql (postgres_throws w) e h) = Inr r \<Longrightarrow>
   fails w SelectFilteredInvoices = Some err \<or> p < 1 \<Longrightarrow>
     returned (fst (fetchFilteredInvoices e w h q p)) = Inr []"
  "fst (getSql (postgres_throws w) e h) = Inr r \<Longrightarrow>
     \<exists>v. returned (fst (fetchFilteredInvoices e w h q p)) = Inr v"
  "fst (getSql (postgres_throws w) e h) = Inl thrown \<Longrightarrow>
     returned (fst (fetchFilteredInvoices e w h q p)) = Inl thrown"
proof -
  show "fst (getSql (postgres_throws w) e h) = Inr None \<Longrightarrow>
          returned (fst (fetchFilteredInvoices e w h q p)) = Inr []"
    by (cases "getSql (postgres_throws w) e h") (simp add: fetchFilteredInvoices_def)
  show "fst (getSql (postgres_throws w) e h) = Inr r \<Longrightarrow>
          \<exists>v. returned (fst (fetchFilteredInvoices e w h q p)) = Inr v"
    by (cases "getSql (postgres_throws w) e h")
       (simp add: fetchFilteredInvoices_def Let_def split: option.splits sum.splits)
  show "fst (getSql (postgres_throws w) e h) = Inl thrown \<Longrightarrow>
          returned (fst (fetchFilteredInvoices e w h q p)) = Inl thrown"
    by (cases "getSql (postgres_throws w) e h") (simp add: fetchFilteredInvoices_def)
  assume ok: "fst (getSql (postgres_throws w) e h) = Inr r"
  assume "fails w SelectFilteredInvoices = Some err \<or> p < 1"
  then have "\<exists>err'. sql_exec w SelectFilteredInvoices
               (select_filtered_invoices (like_pattern q) ITEMS_PER_PAGE ((p - 1) * int ITEMS_PER_PAGE)) = Inl err'"
  proof
    assume "fails w SelectFilteredInvoices = Some err"
    then show ?thesis by (simp add: sql_exec_def)
  next
    assume "p < 1"
    then have "(p - 1) * int ITEMS_PER_PAGE < 0"
      by (simp add: ITEMS_PER_PAGE_def)
    then show ?thesis
      using select_filtered_invoices_negative
      by (cases "fails w SelectFilteredInvoices") (simp_all add: sql_exec_def)
  qed
  with ok show "returned (fst (fetchFilteredInvoices e w h q p)) = Inr []"
    by (cases "getSql (postgres_throws w) e h")
       (auto simp: fetchFilteredInvoices_def Let_def split: option.splits)
qed

text \<open>
  C1, for the inputs on which the client constructor does not throw. When \<^verbatim>\<open>getSql\<close>
  returns, every query function returns its safe default if \<^verbatim>\<open>getSql\<close> gave no client,
  returns that same safe default if its statement fails (for \<^verbatim>\<open>fetchCardData\<close>, if any of
  its three statements fails; for \<^verbatim>\<open>fetchFilteredInvoices\<close>, also if the database rejects
  the negative offset of a page number below 1), and in every case its promise settles
  with a value: no failure of a statement reaches the caller.
\<close>

theorem query_functions_safe_default:
  assumes "fst (getSql (postgres_throws w) e h) = Inr r"
  shows
  "(r = None \<longrightarrow>
      returned (fst (fetchRevenue e w h)) = Inr SAFE_EMPTY_REVENUE \<and>
      returned (fst (fetchLatestInvoices f e w h)) = Inr SAFE_EMPTY_INVOICES \<and>
      returned (fst (fetchCardData f e w h)) = Inr (SAFE_CARD_DATA f) \<and>
      returned (fst (fetchFilteredInvoices e w h q p)) = Inr [] \<and>
      returned (fst (fetchInvoicesPages e w h q)) = Inr 0 \<and>
      returned (fst (fetchInvoiceById e w h i)) = Inr None \<and>
      returned (fst (fetchCustomers e w h)) = Inr [] \<and>
      returned (fst (fetchFilteredCustomers f e w h q)) = Inr []) \<and>
   (fails w SelectRevenue = Some err \<longrightarrow>
      returned (fst (fetchRevenue e w h)) = Inr SAFE_EMPTY_REVENUE) \<and>
   (fails w SelectLatestInvoices = Some err \<longrightarrow>
      returned (fst (fetchLatestInvoices f e w h)) = Inr SAFE_EMPTY_INVOICES) \<and>
   (fails w CountInvoices = Some err \<or> fails w CountCustomers = Some err \<or>
    fails w SumInvoiceStatus = Some err \<longrightarrow>
      returned (fst (fetchCardData f e w h)) = Inr (SAFE_CARD_DATA f)) \<and>
   (fails w SelectFilteredInvoices = Some err \<or> p < 1 \<longrightarrow>
      returned (fst (fetchFilteredInvoices e w h q p)) = Inr []) \<and>
   (fails w CountFilteredInvoices = Some err \<longrightarrow>
      returned (fst (fetchInvoicesPages e w h q)) = Inr 0) \<and>
   (fails w SelectInvoiceById = Some err \<longrightarrow>
      returned (fst (fetchInvoiceById e w h i)) = Inr None) \<and>
   (fails w SelectCustomers = Some err \<longrightarrow>
      returned (fst (fetchCustomers e w h)) = Inr []) \<and>
   (fails w SelectFilteredCustomers = Some err \<longrightarrow>
      returned (fst (fetchFilteredCustomers f e w h q)) = Inr []) \<and>
   (\<exists>v. returned (fst (fetchRevenue e w h)) = Inr v) \<and>
   (\<exists>v. returned (fst (fetchLatestInvoices f e w h)) = Inr v) \<and>
   (\<exists>v. returned (fst (fetchCardData f e w h)) = Inr v) \<and>
   (\<exists>v. returned (fst (fetchFilteredInvoices e w h q p)) = Inr v) \<and>
   (\<exists>v. returned (fst (fetchInvoicesPages e w h q)) = Inr v) \<and>
   (\<exists>v. returned (fst (fetchInvoiceById e w h i)) = Inr v) \<and>
   (\<exists>v. returned (fst (fetchCustomers e w h)) = Inr v) \<and>
   (\<exists>v. returned (fst (fetchFilteredCustomers f e w h q)) = Inr v)"
proof (intro conjI impI)
  show "\<exists>v. returned (fst (fetchRevenue e w h)) = Inr v"
    by (rule fetchRevenue_safe(3) [OF assms])
  show "\<exists>v. returned (fst (fetchLatestInvoices f e w h)) = Inr v"
    by (rule fetchLatestInvoices_safe(3) [OF assms])
  show "\<exists>v. returned (fst (fetchCardData f e w h)) = Inr v"
    by (rule fetchCardData_safe(3) [OF assms])
  show "\<exists>v. returned (fst (fetchFilteredInvoices e w h q p)) = Inr v"
    by (rule fetchFilteredInvoices_safe(3) [OF assms])
  show "\<exists>v. returned (fst (fetchInvoicesPages e w h q)) = Inr v"
    by (rule fetchInvoicesPages_safe(3) [OF assms])
  show "\<exists>v. returned (fst (fetchInvoiceById e w h i)) = Inr v"
    by (rule fetchInvoiceById_safe(3) [OF assms])
  show "\<exists>v. returned (fst (fetchCustomers e w h)) = Inr v"
    by (rule fetchCustomers_safe(3) [OF assms])
  show "\<exists>v. returned (fst (fetchFilteredCustomers f e w h q)) = Inr v"
    by (rule fetchFilteredCustomers_safe(3) [OF assms])
next
  assume "fails w SelectRevenue = Some err"
  then show "returned (fst (fetchRevenue e w h)) = Inr SAFE_EMPTY_REVENUE"
    by (rule fetchRevenue_safe(2) [OF assms])
next
  assume "fails w SelectLatestInvoices = Some err"
  then show "returned (fst (fetchLatestInvoices f e w h)) = Inr SAFE_EMPTY_INVOICES"
    by (rule fetchLatestInvoices_safe(2) [OF assms])
next
  assume "fails w CountInvoices = Some err \<or> fails w CountCustomers = Some err \<or>
          fails w SumInvoiceStatus = Some err"
  then show "returned (fst (fetchCardData f e w h)) = Inr (SAFE_CARD_DATA f)"
    by (rule fetchCardData_safe(2) [OF assms])
next
  assume "fails w SelectFilteredInvoices = Some err \<or> p < 1"
  then show "returned (fst (fetchFilteredInvoices e w h q p)) = Inr []"
    by (rule fetchFilteredInvoices_safe(2) [OF assms])
next
  assume "fails w CountFilteredInvoices = Some err"
  then show "returned (fst (fetchInvoicesPages e w h q)) = Inr 0"
    by (rule fetchInvoicesPages_safe(2) [OF assms])
next
  assume "fails w SelectInvoiceById = Some err"
  then show "returned (fst (fetchInvoiceById e w h i)) = Inr None"
    by (rule fetchInvoiceById_safe(2) [OF assms])
next
  assume "fails w SelectCustomers = Some err"
  then show "returned (fst (fetchCustomers e w h)) = Inr []"
    by (rule fetchCustomers_safe(2) [OF assms])
next
  assume "fails w SelectFilteredCustomers = Some err"
  then show "returned (fst (fetchFilteredCustomers f e w h q)) = Inr []"
    by (rule fetchFilteredCustomers_safe(2) [OF assms])
qed (use assms in \<open>simp_all add: fetchRevenue_safe(1) fetchLatestInvoices_safe(1)
      fetchCardData_safe(1) fetchFilteredInvoices_safe(1) fetchInvoicesPages_safe(1)
      fetchInvoiceById_safe(1) fetchCustomers_safe(1) fetchFilteredCustomers_safe(1)\<close>)

lemma example_no_client: "fst (getSql (postgres_throws w) Map.empty h) = Inr None"
  by (simp add: getSql_def truthy_def)

lemma example_has_client:
  "fst (getSql (postgres_throws example_world) example_env holder_init) = Inr (Some example_client)"
  "fst (getSql (postgres_throws down_world) example_env holder_init) = Inr (Some example_client)"
  "fst (getSql (postgres_throws orphan_world) example_env holder_init) = Inr (Some example_client)"
  "fst (getSql (postgres_throws tied_world) example_env holder_init) = Inr (Some example_client)"
  by (simp_all add: getSql_def truthy_def example_env_def holder_init_def Let_def
        example_client_def example_world_def down_world_def orphan_world_def tied_world_def)

lemma example_garbage:
  "fst (getSql (postgres_throws example_world) garbage_env holder_init) = Inl (Error ''Invalid URL'')"
  by (simp add: getSql_def truthy_def garbage_env_def holder_init_def Let_def example_world_def)

theorem query_functions_safe_default_witness:
  "fst (getSql (postgres_throws example_world) Map.empty holder_init) = Inr None \<and>
   returned (fst (fetchRevenue Map.empty example_world holder_init)) = Inr SAFE_EMPTY_REVENUE \<and>
   returned (fst (fetchLatestInvoices example_format Map.empty example_world holder_init)) = Inr SAFE_EMPTY_INVOICES \<and>
   returned (fst (fetchCardData example_format Map.empty example_world holder_init)) = Inr (SAFE_CARD_DATA example_format) \<and>
   returned (fst (fetchFilteredInvoices Map.empty example_world holder_init ''ann'' 1)) = Inr [] \<and>
   returned (fst (fetchInvoicesPages Map.empty example_world holder_init ''ann'')) = Inr 0 \<and>
   returned (fst (fetchInvoiceById Map.empty example_world holder_init ''i1'')) = Inr None \<and>
   returned (fst (fetchCustomers Map.empty example_world holder_init)) = Inr [] \<and>
   returned (fst (fetchFilteredCustomers example_format Map.empty example_world holder_init ''ann'')) = Inr [] \<and>
   fst (getSql (postgres_throws down_world) example_env holder_init) = Inr (Some example_client) \<and>
   fails down_world SelectRevenue = Some (Error ''ECONNREFUSED'') \<and>
   returned (fst (fetchRevenue example_env down_world holder_init)) = Inr SAFE_EMPTY_REVENUE \<and>
   fails down_world SelectLatestInvoices = Some (Error ''ECONNREFUSED'') \<and>
   returned (fst (fetchLatestInvoices example_format example_env down_world holder_init)) = Inr SAFE_EMPTY_INVOICES \<and>
   fails down_world CountCustomers = Some (Error ''ECONNREFUSED'') \<and>
   returned (fst (fetchCardData example_format example_env down_world holder_init)) = Inr (SAFE_CARD_DATA example_format) \<and>
   fails down_world SelectFilteredInvoices = Some (Error ''ECONNREFUSED'') \<and>
   returned (fst (fetchFilteredInvoices example_env down_world holder_init ''ann'' 1)) = Inr [] \<and>
   fails down_world CountFilteredInvoices = Some (Error ''ECONNREFUSED'') \<and>
   returned (fst (fetchInvoicesPages example_env down_world holder_init ''ann'')) = Inr 0 \<and>
   fails down_world SelectInvoiceById = Some (Error ''ECONNREFUSED'') \<and>
   returned (fst (fetchInvoiceById example_env down_world holder_init ''i1'')) = Inr None \<and>
   fails down_world SelectCustomers = Some (Error ''ECONNREFUSED'') \<and>
   returned (fst (fetchCustomers example_env down_world holder_init)) = Inr [] \<and>
   fails down_world SelectFilteredCustomers = Some (Error ''ECONNREFUSED'') \<and>
   returned (fst (fetchFilteredCustomers example_format example_env down_world holder_init ''ann'')) = Inr []"
proof -
  have down: "fails down_world s = Some (Error ''ECONNREFUSED'')" for s
    by (simp add: down_world_def)
  note a = query_functions_safe_default
      [OF example_no_client [of example_world holder_init],
       of example_format "''ann''" 1 "''i1''" "Error ''ECONNREFUSED''"]
  note b = query_functions_safe_default
      [OF example_has_client(2),
       of example_format "''ann''" 1 "''i1''" "Error ''ECONNREFUSED''"]
  show ?thesis
    using example_no_client [of example_world holder_init] example_has_client(2) a b
    by (simp add: down)
qed

text \<open>
  C1 does not hold for every input: \<^verbatim>\<open>getSql()\<close> is called before the \<^verbatim>\<open>try\<close> block, so
  where the constructor throws on the URL, the promise of every query function rejects
  with that error.
\<close>

theorem query_functions_safe_default_counterexample:
  "postgres_throws example_world ''garbage'' = Some (Error ''Invalid URL'') \<and>
   returned (fst (fetchRevenue garbage_env example_world holder_init)) = Inl (Error ''Invalid URL'') \<and>
   returned (fst (fetchLatestInvoices example_format garbage_env example_world holder_init)) =
     Inl (Error ''Invalid URL'') \<and>
   returned (fst (fetchCardData example_format garbage_env example_world holder_init)) =
     Inl (Error ''Invalid URL'') \<and>
   returned (fst (fetchFilteredInvoices garbage_env example_world holder_init ''ann'' 1)) =
     Inl (Error ''Invalid URL'') \<and>
   returned (fst (fetchInvoicesPages garbage_env example_world holder_init ''ann'')) =
     Inl (Error ''Invalid URL'') \<and>
   returned (fst (fetchInvoiceById garbage_env example_world holder_init ''i1'')) =
     Inl (Error ''Invalid URL'') \<and>
   returned (fst (fetchCustomers garbage_env example_world holder_init)) = Inl (Error ''Invalid URL'') \<and>
   returned (fst (fetchFilteredCustomers example_format garbage_env example_world holder_init ''ann'')) =
     Inl (Error ''Invalid URL'')"
  by (simp add: fetchRevenue_safe(4) [OF example_garbage] fetchLatestInvoices_safe(4) [OF example_garbage]
        fetchCardData_safe(4) [OF example_garbage] fetchFilteredInvoices_safe(4) [OF example_garbage]
        fetchInvoicesPages_safe(4) [OF example_garbage] fetchInvoiceById_safe(4) [OF example_garbage]
        fetchCustomers_safe(4) [OF example_garbage] fetchFilteredCustomers_safe(4) [OF example_garbage])
     (simp add: example_world_def)

section \<open>Health endpoint\<close>

lemma checkDatabaseHealth_cases:
  "fails w SelectOne = None \<Longrightarrow> returned (checkDatabaseHealth w) = Inr True"
  "fails w SelectOne = Some err \<Longrightarrow> returned (checkDatabaseHealth w) = Inr False"
  by (simp_all add: checkDatabaseHealth_def sql_exec_def select_one_def)

lemma returned_GET: "returned (GET now w) = returned (GET_response now (returned (checkDatabaseHealth w)))"
  by (simp add: GET_def Let_def)

text \<open>
  C4. The endpoint answers 200 with status \<^verbatim>\<open>healthy\<close> when the liveness statement
  succeeds, 503 with status \<^verbatim>\<open>error\<close> when the health check reports false (which it does
  when the statement fails), and 500 with status \<^verbatim>\<open>error\<close> when awaiting the health
  check throws; whatever the health check does, the response carries the timestamp.
\<close>

theorem GET_status_codes:
  "(fails w SelectOne = None \<longrightarrow>
      returned (GET now w) =
        Inr \<lparr> http_status = 200,
              body = \<lparr> hb_status = ''healthy'', hb_message = ''All systems operational'',
                       hb_error = None, hb_timestamp = now, hb_database = Some ''connected'' \<rparr> \<rparr>) \<and>
   (fails w SelectOne = Some err \<longrightarrow>
      returned (GET now w) =
        Inr \<lparr> http_status = 503,
              body = \<lparr> hb_status = ''error'', hb_message = ''Database connection failed'',
                       hb_error = None, hb_timestamp = now, hb_database = None \<rparr> \<rparr>) \<and>
   returned (GET_response now (Inr False)) =
     Inr \<lparr> http_status = 503,
           body = \<lparr> hb_status = ''error'', hb_message = ''Database connection failed'',
                    hb_error = None, hb_timestamp = now, hb_database = None \<rparr> \<rparr> \<and>
   returned (GET_response now (Inl ex)) =
     Inr \<lparr> http_status = 500,
           body = \<lparr> hb_status = ''error'', hb_message = ''Health check failed'',
                    hb_error = Some (error_message ex), hb_timestamp = now, hb_database = None \<rparr> \<rparr> \<and>
   (\<exists>r. returned (GET_response now health) = Inr r \<and> hb_timestamp (body r) = now)"
proof (intro conjI impI)
  assume "fails w SelectOne = None"
  then show "returned (GET now w) =
        Inr \<lparr> http_status = 200,
              body = \<lparr> hb_status = ''healthy'', hb_message = ''All systems operational'',
                       hb_error = None, hb_timestamp = now, hb_database = Some ''connected'' \<rparr> \<rparr>"
    by (simp add: returned_GET checkDatabaseHealth_cases GET_response_def)
next
  assume "fails w SelectOne = Some err"
  then show "returned (GET now w) =
        Inr \<lparr> http_status = 503,
              body = \<lparr> hb_status = ''error'', hb_message = ''Database connection failed'',
                       hb_error = None, hb_timestamp = now, hb_database = None \<rparr> \<rparr>"
    by (simp add: returned_GET checkDatabaseHealth_cases GET_response_def)
next
  show "\<exists>r. returned (GET_response now health) = Inr r \<and> hb_timestamp (body r) = now"
    by (cases health) (simp_all add: GET_response_def)
qed (simp_all add: GET_response_def)

theorem GET_status_codes_witness:
  "fails example_world SelectOne = None \<and>
   returned (GET ''2024-05-01T10:00:00.000Z'' example_world) =
     Inr \<lparr> http_status = 200,
           body = \<lparr> hb_status = ''healthy'', hb_message = ''All systems operational'',
                    hb_error = None, hb_timestamp = ''2024-05-01T10:00:00.000Z'',
                    hb_database = Some ''connected'' \<rparr> \<rparr> \<and>
   fails down_world SelectOne = Some (Error ''ECONNREFUSED'') \<and>
   returned (GET ''2024-05-01T10:00:00.000Z'' down_world) =
     Inr \<lparr> http_status = 503,
           body = \<lparr> hb_status = ''error'', hb_message = ''Database connection failed'',
                    hb_error = None, hb_timestamp = ''2024-05-01T10:00:00.000Z'',
                    hb_database = None \<rparr> \<rparr>"
proof -
  have up: "fails example_world SelectOne = None"
    by (simp add: example_world_def)
  have down: "fails down_world SelectOne = Some (Error ''ECONNREFUSED'')"
    by (simp add: down_world_def)
  show ?thesis
    using up down
      GET_status_codes [of example_world "''2024-05-01T10:00:00.000Z''" "Error ''ECONNREFUSED''"]
      GET_status_codes [of down_world "''2024-05-01T10:00:00.000Z''" "Error ''ECONNREFUSED''"]
    by simp
qed

text \<open>
  C9. \<^verbatim>\<open>checkDatabaseHealth\<close> settles with a boolean whatever the liveness statement
  does, false when the statement fails, so awaiting it never throws and the endpoint
  never answers a failed liveness statement with 500.
\<close>

theorem checkDatabaseHealth_total:
  "(\<exists>b. returned (checkDatabaseHealth w) = Inr b) \<and>
   (fails w SelectOne = Some err \<longrightarrow> returned (checkDatabaseHealth w) = Inr False) \<and>
   (\<exists>r. returned (GET now w) = Inr r \<and> http_status r \<noteq> 500)"
proof (intro conjI impI)
  show "\<exists>b. returned (checkDatabaseHealth w) = Inr b"
    by (cases "fails w SelectOne") (auto simp: checkDatabaseHealth_cases)
  show "\<exists>r. returned (GET now w) = Inr r \<and> http_status r \<noteq> 500"
    by (cases "fails w SelectOne")
       (simp_all add: returned_GET checkDatabaseHealth_cases GET_response_def)
next
  assume "fails w SelectOne = Some err"
  then show "returned (checkDatabaseHealth w) = Inr False"
    by (rule checkDatabaseHealth_cases)
qed

theorem checkDatabaseHealth_total_witness:
  "fails down_world SelectOne = Some (Error ''ECONNREFUSED'') \<and>
   returned (checkDatabaseHealth down_world) = Inr False \<and>
   (\<exists>r. returned (GET ''2024-05-01T10:00:00.000Z'' down_world) = Inr r \<and> http_status r \<noteq> 500)"
proof -
  have down: "fails down_world SelectOne = Some (Error ''ECONNREFUSED'')"
    by (simp add: down_world_def)
  show ?thesis
    using down
      checkDatabaseHealth_total [of down_world "Error ''ECONNREFUSED''" "''2024-05-01T10:00:00.000Z''"]
    by simp
qed

section \<open>Invoice by id\<close>

lemma filter_of_find:
  "find P xs = Some r \<Longrightarrow> \<exists>rest. filter P xs = r # rest"
  by (induction xs) (auto split: if_splits)

lemma fetchInvoiceById_client:
  assumes "fst (getSql (postgres_throws w) e h) = Inr (Some c)"
    and "fails w SelectInvoiceById = None"
  shows "returned (fst (fetchInvoiceById e w h ident)) =
           Inr (case filter (\<lambda>i. inv_id i = ident) (invoices (db w)) of
                  [] \<Rightarrow> None | r # _ \<Rightarrow> Some (cents_to_dollars (invoice_form_row r)))"
  using assms
  by (cases "getSql (postgres_throws w) e h")
     (auto simp: fetchInvoiceById_def sql_exec_def select_invoice_by_id_def Let_def
           split: option.splits list.splits)

text \<open>
  C7. With a client and a statement that succeeds, \<^verbatim>\<open>fetchInvoiceById\<close> returns the
  stored row of the id (the first, should several rows share it) with the amount in
  cents divided by 100. The quotient is exact here; JavaScript rounds it to the nearest
  double.
\<close>

theorem fetchInvoiceById_amount:
  assumes "fst (getSql (postgres_throws w) e h) = Inr (Some c)"
    and "fails w SelectInvoiceById = None"
    and "find (\<lambda>i. inv_id i = ident) (invoices (db w)) = Some r"
  shows "returned (fst (fetchInvoiceById e w h ident)) =
           Inr (Some \<lparr> if_id = ident, if_customer_id = inv_customer_id r,
                       if_amount = of_int (inv_amount r) / 100, if_status = inv_status r \<rparr>)"
proof -
  from filter_of_find [OF assms(3)]
  obtain rest where f: "filter (\<lambda>i. inv_id i = ident) (invoices (db w)) = r # rest"
    by auto
  from assms(3) have "inv_id r = ident"
    by (auto simp: find_Some_iff)
  with f show ?thesis
    using fetchInvoiceById_client [OF assms(1,2), of ident]
    by (simp add: cents_to_dollars_def invoice_form_row_def)
qed

theorem fetchInvoiceById_amount_witness:
  "fst (getSql (postgres_throws example_world) example_env holder_init) = Inr (Some example_client) \<and>
   fails example_world SelectInvoiceById = None \<and>
   find (\<lambda>i. inv_id i = ''i1'') (invoices (db example_world)) =
     Some \<lparr> inv_id = ''i1'', inv_customer_id = ''c1'', inv_amount = 12345, inv_status = ''paid'',
            inv_date = (2024, 2, 5) \<rparr> \<and>
   returned (fst (fetchInvoiceById example_env example_world holder_init ''i1'')) =
     Inr (Some \<lparr> if_id = ''i1'', if_customer_id = ''c1'', if_amount = 123.45, if_status = ''paid'' \<rparr>)"
proof -
  note a = example_has_client(1)
  have b: "fails example_world SelectInvoiceById = None"
    by (simp add: example_world_def)
  have c: "find (\<lambda>i. inv_id i = ''i1'') (invoices (db example_world)) =
     Some \<lparr> inv_id = ''i1'', inv_customer_id = ''c1'', inv_amount = 12345, inv_status = ''paid'',
            inv_date = (2024, 2, 5) \<rparr>"
    by (simp add: example_world_def example_db_def)
  show ?thesis
    using a b c fetchInvoiceById_amount [OF a b c] by simp
qed

section \<open>Latest invoices\<close>

lemma fetchLatestInvoices_client:
  assumes "fst (getSql (postgres_throws w) e h) = Inr (Some c)"
    and "fails w SelectLatestInvoices = None"
  shows "returned (fst (fetchLatestInvoices f e w h)) =
           Inr (map (format_latest f \<circ> latest_row)
                  (take 5 (date_desc_order w (invoices_join_customers (db w)))))"
  using assms
  by (cases "getSql (postgres_throws w) e h")
     (auto simp: fetchLatestInvoices_def sql_exec_def select_latest_invoices_def
           split: option.splits)

lemma fetchLatestInvoices_length:
  assumes "fst (getSql (postgres_throws w) e h) = Inr r"
  shows "\<exists>rows. returned (fst (fetchLatestInvoices f e w h)) = Inr rows \<and> length rows \<le> 5"
  using assms
  by (cases "getSql (postgres_throws w) e h")
     (auto simp: fetchLatestInvoices_def sql_exec_def select_latest_invoices_def
           SAFE_EMPTY_INVOICES_def split: option.splits sum.splits)

lemma format_latest_row:
  "format_latest f \<circ> latest_row =
     (\<lambda>r. \<lparr> li_amount = f (inv_amount (fst r)), li_name = cust_name (snd r),
            li_image_url = cust_image_url (snd r), li_email = cust_email (snd r),
            li_id = inv_id (fst r) \<rparr>)"
  by (auto simp: format_latest_def latest_row_def fun_eq_iff)

text \<open>
  C10. Whenever \<^verbatim>\<open>getSql\<close> returns, \<^verbatim>\<open>fetchLatestInvoices\<close> returns at most five rows.
  With a client and a statement that succeeds, in a world whose database keeps the
  promise of \<^verbatim>\<open>ORDER BY invoices.date DESC\<close> on the joined rows, the rows returned are
  the first five of an arrangement of exactly the joined rows in which no date comes
  before a later one, each with its amount replaced by the text \<^verbatim>\<open>formatCurrency\<close>
  gives for it. Which of the rows with equal dates come first is the database's choice.
\<close>

theorem fetchLatestInvoices_top_five:
  "(fst (getSql (postgres_throws w) e h) = Inr r \<longrightarrow>
      (\<exists>rows. returned (fst (fetchLatestInvoices f e w h)) = Inr rows \<and> length rows \<le> 5)) \<and>
   (fst (getSql (postgres_throws w) e h) = Inr (Some c) \<and>
    fails w SelectLatestInvoices = None \<and>
    date_desc_arrangement (invoices_join_customers (db w))
      (date_desc_order w (invoices_join_customers (db w))) \<longrightarrow>
      (\<exists>arranged.
         mset arranged = mset (invoices_join_customers (db w)) \<and>
         sorted_wrt (\<lambda>a b. inv_date (fst b) \<le> inv_date (fst a)) arranged \<and>
         returned (fst (fetchLatestInvoices f e w h)) =
           Inr (map (\<lambda>r. \<lparr> li_amount = f (inv_amount (fst r)), li_name = cust_name (snd r),
                          li_image_url = cust_image_url (snd r), li_email = cust_email (snd r),
                          li_id = inv_id (fst r) \<rparr>)
                  (take 5 arranged))))"
proof (intro conjI impI)
  assume "fst (getSql (postgres_throws w) e h) = Inr r"
  then show "\<exists>rows. returned (fst (fetchLatestInvoices f e w h)) = Inr rows \<and> length rows \<le> 5"
    by (rule fetchLatestInvoices_length)
next
  assume a: "fst (getSql (postgres_throws w) e h) = Inr (Some c) \<and>
    fails w SelectLatestInvoices = None \<and>
    date_desc_arrangement (invoices_join_customers (db w))
      (date_desc_order w (invoices_join_customers (db w)))"
  let ?arranged = "date_desc_order w (invoices_join_customers (db w))"
  from a have "returned (fst (fetchLatestInvoices f e w h)) =
           Inr (map (format_latest f \<circ> latest_row) (take 5 ?arranged))"
    using fetchLatestInvoices_client by blast
  with a have
    "mset ?arranged = mset (invoices_join_customers (db w)) \<and>
     sorted_wrt (\<lambda>a b. inv_date (fst b) \<le> inv_date (fst a)) ?arranged \<and>
     returned (fst (fetchLatestInvoices f e w h)) =
       Inr (map (\<lambda>r. \<lparr> li_amount = f (inv_amount (fst r)), li_name = cust_name (snd r),
                      li_image_url = cust_image_url (snd r), li_email = cust_email (snd r),
                      li_id = inv_id (fst r) \<rparr>)
              (take 5 ?arranged))"
    by (simp add: date_desc_arrangement_def format_latest_row)
  then show "\<exists>arranged.
         mset arranged = mset (invoices_join_customers (db w)) \<and>
         sorted_wrt (\<lambda>a b. inv_date (fst b) \<le> inv_date (fst a)) arranged \<and>
         returned (fst (fetchLatestInvoices f e w h)) =
           Inr (map (\<lambda>r. \<lparr> li_amount = f (inv_amount (fst r)), li_name = cust_name (snd r),
                          li_image_url = cust_image_url (snd r), li_email = cust_email (snd r),
                          li_id = inv_id (fst r) \<rparr>)
                  (take 5 arranged))"
    by (rule exI)
qed

lemma example_join:
  "invoices_join_customers example_db =
     [(\<lparr> inv_id = ''i1'', inv_customer_id = ''c1'', inv_amount = 12345, inv_status = ''paid'',
         inv_date = (2024, 2, 5) \<rparr>,
       \<lparr> cust_id = ''c1'', cust_name = ''Ann Lee'', cust_email = ''ann@x.io'',
         cust_image_url = ''/ann.png'' \<rparr>),
      (\<lparr> inv_id = ''i2'', inv_customer_id = ''c1'', inv_amount = 500, inv_status = ''pending'',
         inv_date = (2024, 3, 9) \<rparr>,
       \<lparr> cust_id = ''c1'', cust_name = ''Ann Lee'', cust_email = ''ann@x.io'',
         cust_image_url = ''/ann.png'' \<rparr>)]"
  by (simp add: invoices_join_customers_def example_db_def)

lemma example_ordered:
  "date_desc_order example_world (invoices_join_customers example_db) =
     [(\<lparr> inv_id = ''i2'', inv_customer_id = ''c1'', inv_amount = 500, inv_status = ''pending'',
         inv_date = (2024, 3, 9) \<rparr>,
       \<lparr> cust_id = ''c1'', cust_name = ''Ann Lee'', cust_email = ''ann@x.io'',
         cust_image_url = ''/ann.png'' \<rparr>),
      (\<lparr> inv_id = ''i1'', inv_customer_id = ''c1'', inv_amount = 12345, inv_status = ''paid'',
         inv_date = (2024, 2, 5) \<rparr>,
       \<lparr> cust_id = ''c1'', cust_name = ''Ann Lee'', cust_email = ''ann@x.io'',
         cust_image_url = ''/ann.png'' \<rparr>)]"
  by (simp add: example_join example_world_def less_eq_prod_def)

lemma example_arrangement:
  "date_desc_arrangement (invoices_join_customers example_db)
     (date_desc_order example_world (invoices_join_customers example_db))"
  unfolding example_ordered
  by (simp add: example_join date_desc_arrangement_def less_eq_prod_def)

lemma tied_join:
  "invoices_join_customers (db tied_world) =
     [(\<lparr> inv_id = ''t1'', inv_customer_id = ''c1'', inv_amount = 100, inv_status = ''paid'',
         inv_date = (2024, 2, 5) \<rparr>,
       \<lparr> cust_id = ''c1'', cust_name = ''Ann Lee'', cust_email = ''ann@x.io'',
         cust_image_url = ''/ann.png'' \<rparr>),
      (\<lparr> inv_id = ''t2'', inv_customer_id = ''c1'', inv_amount = 200, inv_status = ''paid'',
         inv_date = (2024, 2, 5) \<rparr>,
       \<lparr> cust_id = ''c1'', cust_name = ''Ann Lee'', cust_email = ''ann@x.io'',
         cust_image_url = ''/ann.png'' \<rparr>)]"
  by (simp add: invoices_join_customers_def tied_world_def)

lemma tied_arrangement:
  "date_desc_arrangement (invoices_join_customers (db tied_world))
     (date_desc_order tied_world (invoices_join_customers (db tied_world)))"
  unfolding tied_join
  by (simp add: tied_world_def date_desc_arrangement_def)

theorem fetchLatestInvoices_top_five_witness:
  "fst (getSql (postgres_throws example_world) example_env holder_init) = Inr (Some example_client) \<and>
   fails example_world SelectLatestInvoices = None \<and>
   date_desc_arrangement (invoices_join_customers (db example_world))
     (date_desc_order example_world (invoices_join_customers (db example_world))) \<and>
   returned (fst (fetchLatestInvoices example_format example_env example_world holder_init)) =
     Inr [\<lparr> li_amount = example_format 500, li_name = ''Ann Lee'', li_image_url = ''/ann.png'',
            li_email = ''ann@x.io'', li_id = ''i2'' \<rparr>,
          \<lparr> li_amount = example_format 12345, li_name = ''Ann Lee'', li_image_url = ''/ann.png'',
            li_email = ''ann@x.io'', li_id = ''i1'' \<rparr>] \<and>
   fst (getSql (postgres_throws tied_world) example_env holder_init) = Inr (Some example_client) \<and>
   fails tied_world SelectLatestInvoices = None \<and>
   date_desc_arrangement (invoices_join_customers (db tied_world))
     (date_desc_order tied_world (invoices_join_customers (db tied_world))) \<and>
   returned (fst (fetchLatestInvoices example_format example_env tied_world holder_init)) =
     Inr [\<lparr> li_amount = example_format 100, li_name = ''Ann Lee'', li_image_url = ''/ann.png'',
            li_email = ''ann@x.io'', li_id = ''t1'' \<rparr>,
          \<lparr> li_amount = example_format 200, li_name = ''Ann Lee'', li_image_url = ''/ann.png'',
            li_email = ''ann@x.io'', li_id = ''t2'' \<rparr>]"
proof -
  have b: "fails example_world SelectLatestInvoices = None" "fails tied_world SelectLatestInvoices = None"
    by (simp_all add: example_world_def tied_world_def)
  have c: "db example_world = example_db"
    by (simp add: example_world_def)
  have d: "date_desc_order tied_world = (\<lambda>rows. rows)"
    by (simp add: tied_world_def)
  have r1: "returned (fst (fetchLatestInvoices example_format example_env example_world holder_init)) =
     Inr [\<lparr> li_amount = example_format 500, li_name = ''Ann Lee'', li_image_url = ''/ann.png'',
            li_email = ''ann@x.io'', li_id = ''i2'' \<rparr>,
          \<lparr> li_amount = example_format 12345, li_name = ''Ann Lee'', li_image_url = ''/ann.png'',
            li_email = ''ann@x.io'', li_id = ''i1'' \<rparr>]"
    using fetchLatestInvoices_client [OF example_has_client(1) b(1), of example_format]
    by (simp add: c example_ordered format_latest_row)
  have r2: "returned (fst (fetchLatestInvoices example_format example_env tied_world holder_init)) =
     Inr [\<lparr> li_amount = example_format 100, li_name = ''Ann Lee'', li_image_url = ''/ann.png'',
            li_email = ''ann@x.io'', li_id = ''t1'' \<rparr>,
          \<lparr> li_amount = example_format 200, li_name = ''Ann Lee'', li_image_url = ''/ann.png'',
            li_email = ''ann@x.io'', li_id = ''t2'' \<rparr>]"
    using fetchLatestInvoices_client [OF example_has_client(4) b(2), of example_format]
    by (simp add: d tied_join format_latest_row)
  have a1: "date_desc_arrangement (invoices_join_customers (db example_world))
     (date_desc_order example_world (invoices_join_customers (db example_world)))"
    using example_arrangement by (simp add: c)
  note t1 = fetchLatestInvoices_top_five
      [of example_world example_env holder_init "Some example_client" example_format example_client]
  note t2 = fetchLatestInvoices_top_five
      [of tied_world example_env holder_init "Some example_client" example_format example_client]
  show ?thesis
    using example_has_client(1) example_has_client(4) b a1 tied_arrangement r1 r2 t1 t2
    by blast
qed

section \<open>Pagination\<close>

lemma select_filtered_invoices_page:
  "0 \<le> k \<Longrightarrow>
   select_filtered_invoices pat n k w =
     Inr (map invoices_table_row
            (take n (drop (nat k)
               (date_desc_order w (filter (invoice_where w pat) (invoices_join_customers (db w)))))))"
  by (simp add: select_filtered_invoices_def limit_offset_def)

lemma select_filtered_invoices_length:
  "select_filtered_invoices pat n k w = Inr rows \<Longrightarrow> length rows \<le> n"
  by (auto simp: select_filtered_invoices_def limit_offset_def split: if_splits)

lemma fetchFilteredInvoices_client:
  assumes "fst (getSql (postgres_throws w) e h) = Inr (Some c)"
  shows "returned (fst (fetchFilteredInvoices e w h q p)) =
           Inr (case sql_exec w SelectFilteredInvoices
                       (select_filtered_invoices (like_pattern q) 6 ((p - 1) * 6)) of
                  Inl err \<Rightarrow> [] | Inr rows \<Rightarrow> rows)"
  using assms
  by (cases "getSql (postgres_throws w) e h")
     (auto simp: fetchFilteredInvoices_def ITEMS_PER_PAGE_def Let_def split: option.splits sum.splits)

lemma fetchFilteredInvoices_length:
  assumes "fst (getSql (postgres_throws w) e h) = Inr r"
  shows "\<exists>rows. returned (fst (fetchFilteredInvoices e w h q p)) = Inr rows \<and> length rows \<le> 6"
proof (cases r)
  case None
  with assms show ?thesis
    by (simp add: fetchFilteredInvoices_safe(1))
next
  case (Some c)
  with assms have client: "fst (getSql (postgres_throws w) e h) = Inr (Some c)"
    by simp
  show ?thesis
  proof (cases "sql_exec w SelectFilteredInvoices
                  (select_filtered_invoices (like_pattern q) 6 ((p - 1) * 6))")
    case (Inl err)
    then show ?thesis by (simp add: fetchFilteredInvoices_client [OF client])
  next
    case (Inr rows)
    then have "select_filtered_invoices (like_pattern q) 6 ((p - 1) * 6) w = Inr rows"
      by (simp add: sql_exec_def split: option.splits)
    then have "length rows \<le> 6" by (rule select_filtered_invoices_length)
    with Inr show ?thesis by (simp add: fetchFilteredInvoices_client [OF client])
  qed
qed

lemma fetchFilteredInvoices_page:
  assumes "fst (getSql (postgres_throws w) e h) = Inr (Some c)"
    and "fails w SelectFilteredInvoices = None" and "1 \<le> p"
  shows "returned (fst (fetchFilteredInvoices e w h q p)) =
           Inr (map invoices_table_row
                  (take 6 (drop (nat ((p - 1) * 6))
                     (date_desc_order w
                        (filter (invoice_where w (like_pattern q)) (invoices_join_customers (db w)))))))"
proof -
  from assms(3) have "0 \<le> (p - 1) * 6" by simp
  then show ?thesis
    using assms(2)
    by (simp add: fetchFilteredInvoices_client [OF assms(1)] sql_exec_def select_filtered_invoices_page)
qed

lemma fetchInvoicesPages_client:
  assumes "fst (getSql (postgres_throws w) e h) = Inr (Some c)"
    and "fails w CountFilteredInvoices = None"
  shows "returned (fst (fetchInvoicesPages e w h q)) =
           Inr \<lceil>(of_nat (length (filter (invoice_where w (like_pattern q))
                                 (invoices_join_customers (db w)))) :: rat) / 6\<rceil>"
  using assms
  by (cases "getSql (postgres_throws w) e h")
     (auto simp: fetchInvoicesPages_def sql_exec_def count_filtered_invoices_def first_count_def
           ITEMS_PER_PAGE_def Let_def split: option.splits)

text \<open>
  C5. With a client, \<^verbatim>\<open>fetchFilteredInvoices\<close> issues its statement with limit 6 and
  offset \<open>(p - 1) * 6\<close> for every query and page number, and whenever \<^verbatim>\<open>getSql\<close> returns
  it returns at most 6 rows. For a page number from 1 on and a statement that succeeds,
  in a world whose database keeps the promise of \<^verbatim>\<open>ORDER BY invoices.date DESC\<close> on the
  matching joined rows, the rows returned are those at positions \<open>(p - 1) * 6\<close> to
  \<open>(p - 1) * 6 + 5\<close> of an arrangement of exactly the matching rows in which no date
  comes before a later one. \<^verbatim>\<open>fetchInvoicesPages\<close> returns the ceiling of the number of
  joined rows matching the same predicate, divided by 6.
\<close>

theorem invoices_pagination:
  "(fst (getSql (postgres_throws w) e h) = Inr r \<longrightarrow>
      (\<exists>rows. returned (fst (fetchFilteredInvoices e w h q p)) = Inr rows \<and> length rows \<le> 6)) \<and>
   (fst (getSql (postgres_throws w) e h) = Inr (Some c) \<longrightarrow>
      returned (fst (fetchFilteredInvoices e w h q p)) =
        Inr (case sql_exec w SelectFilteredInvoices
                    (select_filtered_invoices (like_pattern q) 6 ((p - 1) * 6)) of
               Inl err \<Rightarrow> [] | Inr rows \<Rightarrow> rows)) \<and>
   (fst (getSql (postgres_throws w) e h) = Inr (Some c) \<and>
    fails w SelectFilteredInvoices = None \<and> 1 \<le> p \<and>
    date_desc_arrangement
      (filter (invoice_where w (like_pattern q)) (invoices_join_customers (db w)))
      (date_desc_order w
         (filter (invoice_where w (like_pattern q)) (invoices_join_customers (db w)))) \<longrightarrow>
      (\<exists>arranged.
         date_desc_arrangement
           (filter (invoice_where w (like_pattern q)) (invoices_join_customers (db w))) arranged \<and>
         returned (fst (fetchFilteredInvoices e w h q p)) =
           Inr (map invoices_table_row (take 6 (drop (nat ((p - 1) * 6)) arranged))))) \<and>
   (fst (getSql (postgres_throws w) e h) = Inr (Some c) \<and> fails w CountFilteredInvoices = None \<longrightarrow>
      returned (fst (fetchInvoicesPages e w h q)) =
        Inr \<lceil>(of_nat (length (filter (invoice_where w (like_pattern q))
                              (invoices_join_customers (db w)))) :: rat) / 6\<rceil>)"
  using fetchFilteredInvoices_length [of w e h r q p] fetchFilteredInvoices_client [of w e h c q p]
    fetchFilteredInvoices_page [of w e h c p q] fetchInvoicesPages_client [of w e h c q]
  by blast

lemma ceiling_one_third: "\<lceil>(1::rat) / 3\<rceil> = 1"
  by (rule ceiling_unique) simp_all

lemma ceiling_one_sixth: "\<lceil>(1::rat) / 6\<rceil> = 1"
  by (rule ceiling_unique) simp_all

lemma ascii_lower_special: "like_special (ascii_lower c) \<longleftrightarrow> like_special c"
proof
  have n: "(of_char (ascii_lower c) :: nat) =
     (if 65 \<le> (of_char c :: nat) \<and> (of_char c :: nat) \<le> 90 then of_char c + 32 else of_char c)"
    by (simp add: ascii_lower_def Let_def)
  assume "like_special (ascii_lower c)"
  then have "(of_char (ascii_lower c) :: nat) \<in> {37, 95, 92}"
    by (auto simp: like_special_def)
  then have "(of_char c :: nat) \<in> {37, 95, 92}"
    by (auto simp: n split: if_splits)
  then have "(of_char c :: nat) = of_char CHR ''%'' \<or> (of_char c :: nat) = of_char CHR ''_'' \<or>
             (of_char c :: nat) = of_char (CHR 0x5C)"
    by auto
  then show "like_special c"
    unfolding like_special_def of_char_eq_iff .
next
  assume "like_special c"
  then show "like_special (ascii_lower c)"
    by (auto simp: like_special_def ascii_lower_def)
qed

text \<open>In the example worlds the folding of the database is the ASCII folding.\<close>

lemma ascii_lower_fixes_special: "like_special c \<Longrightarrow> ascii_lower c = c"
  by (auto simp: like_special_def ascii_lower_def)

lemma example_lower_char:
  "lower_char example_world = ascii_lower" "lower_char tied_world = ascii_lower"
  "lower_char orphan_world = ascii_lower"
  by (auto simp: lower_char_def fun_eq_iff example_world_def tied_world_def orphan_world_def
        ascii_lower_special ascii_lower_fixes_special)

lemma example_ilike_ann: "ilike example_world ''Ann Lee'' (like_pattern ''ann'')"
  by (simp add: ilike_def example_lower_char like_pattern_def ascii_lower_def char_of_def
        bit_Suc_0_iff)

lemma example_filter_ann:
  "filter (invoice_where example_world (like_pattern ''ann'')) (invoices_join_customers example_db) =
     invoices_join_customers example_db"
  by (simp add: example_join invoice_where_def example_ilike_ann)

theorem invoices_pagination_witness:
  "fst (getSql (postgres_throws example_world) example_env holder_init) = Inr (Some example_client) \<and>
   fails example_world SelectFilteredInvoices = None \<and>
   fails example_world CountFilteredInvoices = None \<and>
   (1::int) \<le> 1 \<and>
   date_desc_arrangement
     (filter (invoice_where example_world (like_pattern ''ann''))
        (invoices_join_customers (db example_world)))
     (date_desc_order example_world
        (filter (invoice_where example_world (like_pattern ''ann''))
           (invoices_join_customers (db example_world)))) \<and>
   returned (fst (fetchFilteredInvoices example_env example_world holder_init ''ann'' 1)) =
     Inr [\<lparr> it_id = ''i2'', it_amount = 500, it_date = (2024, 3, 9), it_status = ''pending'',
            it_name = ''Ann Lee'', it_email = ''ann@x.io'', it_image_url = ''/ann.png'' \<rparr>,
          \<lparr> it_id = ''i1'', it_amount = 12345, it_date = (2024, 2, 5), it_status = ''paid'',
            it_name = ''Ann Lee'', it_email = ''ann@x.io'', it_image_url = ''/ann.png'' \<rparr>] \<and>
   returned (fst (fetchInvoicesPages example_env example_world holder_init ''ann'')) = Inr 1"
proof -
  have b: "fails example_world s = None" for s
    by (simp add: example_world_def)
  have c: "db example_world = example_db"
    by (simp add: example_world_def)
  have d: "length (invoices_join_customers example_db) = 2"
    by (simp add: example_join)
  have a: "date_desc_arrangement
     (filter (invoice_where example_world (like_pattern ''ann''))
        (invoices_join_customers (db example_world)))
     (date_desc_order example_world
        (filter (invoice_where example_world (like_pattern ''ann''))
           (invoices_join_customers (db example_world))))"
    using example_arrangement by (simp add: c example_filter_ann)
  have r1: "returned (fst (fetchFilteredInvoices example_env example_world holder_init ''ann'' 1)) =
     Inr [\<lparr> it_id = ''i2'', it_amount = 500, it_date = (2024, 3, 9), it_status = ''pending'',
            it_name = ''Ann Lee'', it_email = ''ann@x.io'', it_image_url = ''/ann.png'' \<rparr>,
          \<lparr> it_id = ''i1'', it_amount = 12345, it_date = (2024, 2, 5), it_status = ''paid'',
            it_name = ''Ann Lee'', it_email = ''ann@x.io'', it_image_url = ''/ann.png'' \<rparr>]"
    using fetchFilteredInvoices_page [OF example_has_client(1) b, of 1 "''ann''"]
    by (simp add: c example_filter_ann example_ordered invoices_table_row_def)
  have r2: "returned (fst (fetchInvoicesPages example_env example_world holder_init ''ann'')) = Inr 1"
    using fetchInvoicesPages_client [OF example_has_client(1) b, of "''ann''"]
    by (simp add: c d example_filter_ann ceiling_one_third)
  note t = invoices_pagination
      [of example_world example_env holder_init "Some example_client" "''ann''" 1 example_client]
  show ?thesis
    using example_has_client(1) b a r1 r2 t by simp
qed

section \<open>The empty query\<close>

lemma like_match_percent: "like_match ''%'' s"
  by (induction s) simp_all

lemma like_match_percent_percent: "like_match ''%%'' s"
  by (induction s) (simp_all add: like_match_percent)

lemma lower_char_percent: "lower_char w CHR ''%'' = CHR ''%''"
  by (simp add: lower_char_def like_special_def)

lemma ilike_empty_query: "ilike w s (like_pattern [])"
  by (simp add: ilike_def like_pattern_def lower_char_percent like_match_percent_percent)

lemma invoice_where_empty_query: "invoice_where w (like_pattern []) r"
  by (cases r) (simp add: invoice_where_def ilike_empty_query)

lemma join_length:
  "list_all (\<lambda>i. length (filter (\<lambda>c. inv_customer_id i = cust_id c) cs) = 1) ivs \<Longrightarrow>
   length (concat (map (\<lambda>i. map (Pair i) (filter (\<lambda>c. inv_customer_id i = cust_id c) cs)) ivs)) =
     length ivs"
  by (induction ivs) simp_all

lemma invoices_join_customers_length:
  "one_customer_each d \<Longrightarrow> length (invoices_join_customers d) = length (invoices d)"
  unfolding one_customer_each_def invoices_join_customers_def by (rule join_length)

text \<open>
  C3, for a database in which every invoice names exactly one customer row. With a
  client and a statement that succeeds, on such a database \<^verbatim>\<open>fetchInvoicesPages("")\<close>
  returns the ceiling of the number of invoices divided by 6.
\<close>

theorem fetchInvoicesPages_empty_query:
  assumes "fst (getSql (postgres_throws w) e h) = Inr (Some c)"
    and "fails w CountFilteredInvoices = None"
    and "one_customer_each (db w)"
  shows "returned (fst (fetchInvoicesPages e w h [])) =
           Inr \<lceil>(of_nat (length (invoices (db w))) :: rat) / 6\<rceil>"
proof -
  have "filter (invoice_where w (like_pattern [])) (invoices_join_customers (db w)) =
          invoices_join_customers (db w)"
    by (simp add: invoice_where_empty_query)
  then show ?thesis
    using fetchInvoicesPages_client [OF assms(1,2), of "[]"] invoices_join_customers_length [OF assms(3)]
    by simp
qed

theorem fetchInvoicesPages_empty_query_witness:
  "fst (getSql (postgres_throws example_world) example_env holder_init) = Inr (Some example_client) \<and>
   fails example_world CountFilteredInvoices = None \<and>
   one_customer_each (db example_world) \<and>
   length (invoices (db example_world)) = 2 \<and>
   returned (fst (fetchInvoicesPages example_env example_world holder_init [])) = Inr 1"
proof -
  have b: "fails example_world CountFilteredInvoices = None"
    by (simp add: example_world_def)
  have c: "one_customer_each (db example_world)"
    by (simp add: example_world_def example_db_def one_customer_each_def)
  have d: "length (invoices (db example_world)) = 2"
    by (simp add: example_world_def example_db_def)
  show ?thesis
    using example_has_client(1) b c d
      fetchInvoicesPages_empty_query [OF example_has_client(1) b c]
    by (simp add: ceiling_one_third)
qed

text \<open>
  C3 does not hold where an invoice names a customer that has no row: the join drops
  the invoice, so one invoice gives 0 pages and not 1.
\<close>

theorem fetchInvoicesPages_empty_query_counterexample:
  "length (invoices (db orphan_world)) = 1 \<and>
   returned (fst (fetchInvoicesPages example_env orphan_world holder_init [])) = Inr 0 \<and>
   returned (fst (fetchInvoicesPages example_env orphan_world holder_init [])) \<noteq>
     Inr \<lceil>(of_nat (length (invoices (db orphan_world))) :: rat) / 6\<rceil>"
proof -
  have b: "fails orphan_world CountFilteredInvoices = None"
    by (simp add: orphan_world_def example_world_def)
  have j: "invoices_join_customers (db orphan_world) = []"
    by (simp add: orphan_world_def invoices_join_customers_def)
  have r: "returned (fst (fetchInvoicesPages example_env orphan_world holder_init [])) = Inr 0"
    using fetchInvoicesPages_client [OF example_has_client(3) b, of "[]"] by (simp add: j)
  have n: "length (invoices (db orphan_world)) = 1"
    by (simp add: orphan_world_def)
  show ?thesis
    by (simp add: r n ceiling_one_sixth)
qed

section \<open>ILIKE and substrings\<close>

lemma lower_char_special: "like_special (lower_char w c) \<longleftrightarrow> like_special c"
  by (auto simp: lower_char_def)

lemma wildcard_free_iff: "wildcard_free q \<longleftrightarrow> (\<forall>c \<in> set q. \<not> like_special c)"
  by (auto simp: wildcard_free_def like_special_def)

lemma wildcard_free_lower: "wildcard_free (map (lower_char w) q) \<longleftrightarrow> wildcard_free q"
  by (simp add: wildcard_free_iff lower_char_special)

lemma like_match_literal_prefix:
  "wildcard_free q \<Longrightarrow> like_match (q @ ''%'') s \<longleftrightarrow> prefix q s"
proof (induction q arbitrary: s)
  case Nil
  then show ?case by (simp add: like_match_percent)
next
  case (Cons a q)
  then have a: "a \<noteq> CHR ''%''" "a \<noteq> CHR ''_''" "a \<noteq> CHR 0x5C" and q: "wildcard_free q"
    by (auto simp: wildcard_free_def)
  show ?case
  proof (cases s)
    case Nil
    with a show ?thesis by simp
  next
    case (Cons c t)
    with a Cons.IH [OF q, of t] show ?thesis by auto
  qed
qed

lemma like_match_percent_suffix:
  "like_match (CHR ''%'' # ps) s \<longleftrightarrow> (\<exists>t. suffix t s \<and> like_match ps t)"
proof (induction s)
  case Nil
  then show ?case by simp
next
  case (Cons c s)
  then show ?case by (auto simp: suffix_Cons)
qed

lemma like_match_contains:
  assumes "wildcard_free q"
  shows "like_match (CHR ''%'' # q @ ''%'') s \<longleftrightarrow> sublist q s"
  by (simp add: like_match_percent_suffix like_match_literal_prefix [OF assms] sublist_altdef')

lemma ilike_contains:
  assumes "wildcard_free q"
  shows "ilike w s (like_pattern q) \<longleftrightarrow> ci_substring w q s"
proof -
  have "map (lower_char w) (like_pattern q) = CHR ''%'' # map (lower_char w) q @ ''%''"
    by (simp add: like_pattern_def lower_char_percent)
  moreover have "wildcard_free (map (lower_char w) q)"
    using assms by (simp add: wildcard_free_lower)
  ultimately show ?thesis
    by (simp add: ilike_def ci_substring_def like_match_contains)
qed

lemma invoice_where_spec:
  assumes "wildcard_free q"
  shows "invoice_where w (like_pattern q) r \<longleftrightarrow> spec_invoice_matches w q r"
  by (cases r) (simp add: invoice_where_def spec_invoice_matches_def ilike_contains [OF assms])

text \<open>
  C6, for a query without wildcards. For a query without \<^verbatim>\<open>%\<close>, \<^verbatim>\<open>_\<close> and backslash, and
  whatever case folding the database's character type gives, the \<^verbatim>\<open>WHERE\<close> clause shared
  by \<^verbatim>\<open>fetchFilteredInvoices\<close> and \<^verbatim>\<open>fetchInvoicesPages\<close> keeps exactly the joined rows in
  which the query is a case-insensitive substring of the customer name, the customer
  email, the amount as text, the date as text or the status. The count of the second
  function is taken over those rows, and so is the page of the first: the rows at
  positions \<open>(p - 1) * 6\<close> to \<open>(p - 1) * 6 + 5\<close> of an arrangement of exactly those rows
  in which no date comes before a later one.
\<close>

theorem invoice_filter_substring:
  assumes "wildcard_free q"
  shows "filter (invoice_where w (like_pattern q)) rows = filter (spec_invoice_matches w q) rows \<and>
    (fst (getSql (postgres_throws w) e h) = Inr (Some c) \<and>
     fails w SelectFilteredInvoices = None \<and> 1 \<le> p \<and>
     date_desc_arrangement
       (filter (spec_invoice_matches w q) (invoices_join_customers (db w)))
       (date_desc_order w (filter (spec_invoice_matches w q) (invoices_join_customers (db w)))) \<longrightarrow>
       (\<exists>arranged.
          date_desc_arrangement
            (filter (spec_invoice_matches w q) (invoices_join_customers (db w))) arranged \<and>
          returned (fst (fetchFilteredInvoices e w h q p)) =
            Inr (map invoices_table_row (take 6 (drop (nat ((p - 1) * 6)) arranged))))) \<and>
    (fst (getSql (postgres_throws w) e h) = Inr (Some c) \<and> fails w CountFilteredInvoices = None \<longrightarrow>
       returned (fst (fetchInvoicesPages e w h q)) =
         Inr \<lceil>(of_nat (length (filter (spec_invoice_matches w q)
                               (invoices_join_customers (db w)))) :: rat) / 6\<rceil>)"
proof -
  have eq: "invoice_where w (like_pattern q) = spec_invoice_matches w q"
    using invoice_where_spec [OF assms] by (simp add: fun_eq_iff)
  show ?thesis
    using fetchFilteredInvoices_page [of w e h c p q] fetchInvoicesPages_client [of w e h c q]
    by (auto simp: eq)
qed

lemma example_texts:
  "int_text 12345 = ''12345''" "int_text 500 = ''500''"
  "date_text (2024, 2, 5) = ''2024-02-05''" "date_text (2024, 3, 9) = ''2024-03-09''"
  by (simp_all add: int_text_def date_text_def zero_pad_def nat_text.simps digit_char_def)

lemma example_PEND:
  "\<not> ci_substring example_world ''PEND'' ''Ann Lee''"
  "\<not> ci_substring example_world ''PEND'' ''ann@x.io''"
  "\<not> ci_substring example_world ''PEND'' ''12345''"
  "\<not> ci_substring example_world ''PEND'' ''500''"
  "\<not> ci_substring example_world ''PEND'' ''2024-02-05''"
  "\<not> ci_substring example_world ''PEND'' ''2024-03-09''"
  "\<not> ci_substring example_world ''PEND'' ''paid''"
  "ci_substring example_world ''PEND'' ''pending''"
  by (simp_all add: ci_substring_def example_lower_char ascii_lower_def char_of_def
        bit_Suc_0_iff sublist_code)

lemma example_underscore:
  "\<not> ci_substring example_world ''_'' ''Ann Lee''"
  "\<not> ci_substring example_world ''_'' ''ann@x.io''"
  "\<not> ci_substring example_world ''_'' ''12345''"
  "\<not> ci_substring example_world ''_'' ''500''"
  "\<not> ci_substring example_world ''_'' ''2024-02-05''"
  "\<not> ci_substring example_world ''_'' ''2024-03-09''"
  "\<not> ci_substring example_world ''_'' ''paid''"
  "\<not> ci_substring example_world ''_'' ''pending''"
  by (simp_all add: ci_substring_def example_lower_char ascii_lower_def char_of_def
        bit_Suc_0_iff sublist_code)

lemma example_filter_PEND:
  "filter (spec_invoice_matches example_world ''PEND'') (invoices_join_customers example_db) =
     [(\<lparr> inv_id = ''i2'', inv_customer_id = ''c1'', inv_amount = 500, inv_status = ''pending'',
         inv_date = (2024, 3, 9) \<rparr>,
       \<lparr> cust_id = ''c1'', cust_name = ''Ann Lee'', cust_email = ''ann@x.io'',
         cust_image_url = ''/ann.png'' \<rparr>)]"
  by (simp add: example_join spec_invoice_matches_def example_texts example_PEND)

lemma example_rene:
  "wildcard_free [CHR 0xC9]"
  "ci_substring latin1_world [CHR 0xC9] (''Ren'' @ [CHR 0xE9])"
  by (simp_all add: wildcard_free_def ci_substring_def lower_char_def like_special_def
        latin1_world_def latin1_lower_def char_of_def bit_Suc_0_iff sublist_code)

theorem invoice_filter_substring_witness:
  "wildcard_free ''PEND'' \<and>
   fst (getSql (postgres_throws example_world) example_env holder_init) = Inr (Some example_client) \<and>
   fails example_world SelectFilteredInvoices = None \<and>
   fails example_world CountFilteredInvoices = None \<and>
   (1::int) \<le> 1 \<and>
   date_desc_arrangement
     (filter (spec_invoice_matches example_world ''PEND'') (invoices_join_customers (db example_world)))
     (date_desc_order example_world
        (filter (spec_invoice_matches example_world ''PEND'')
           (invoices_join_customers (db example_world)))) \<and>
   returned (fst (fetchFilteredInvoices example_env example_world holder_init ''PEND'' 1)) =
     Inr [\<lparr> it_id = ''i2'', it_amount = 500, it_date = (2024, 3, 9), it_status = ''pending'',
            it_name = ''Ann Lee'', it_email = ''ann@x.io'', it_image_url = ''/ann.png'' \<rparr>] \<and>
   returned (fst (fetchInvoicesPages example_env example_world holder_init ''PEND'')) = Inr 1 \<and>
   wildcard_free [CHR 0xC9] \<and>
   filter (spec_invoice_matches latin1_world [CHR 0xC9]) [rene_row] = [rene_row] \<and>
   filter (invoice_where latin1_world (like_pattern [CHR 0xC9])) [rene_row] = [rene_row]"
proof -
  have a: "wildcard_free ''PEND''"
    by (simp add: wildcard_free_def)
  have b: "fails example_world s = None" for s
    by (simp add: example_world_def)
  have c: "db example_world = example_db"
    by (simp add: example_world_def)
  have o: "date_desc_order example_world rows = rev (sort_key (\<lambda>r. inv_date (fst r)) rows)" for rows
    by (simp add: example_world_def)
  have eq: "invoice_where example_world (like_pattern ''PEND'') =
              spec_invoice_matches example_world ''PEND''"
    using invoice_where_spec [OF a] by (simp add: fun_eq_iff)
  have arr: "date_desc_arrangement
     (filter (spec_invoice_matches example_world ''PEND'') (invoices_join_customers (db example_world)))
     (date_desc_order example_world
        (filter (spec_invoice_matches example_world ''PEND'')
           (invoices_join_customers (db example_world))))"
    by (simp add: c example_filter_PEND o date_desc_arrangement_def)
  have r1: "returned (fst (fetchFilteredInvoices example_env example_world holder_init ''PEND'' 1)) =
     Inr [\<lparr> it_id = ''i2'', it_amount = 500, it_date = (2024, 3, 9), it_status = ''pending'',
            it_name = ''Ann Lee'', it_email = ''ann@x.io'', it_image_url = ''/ann.png'' \<rparr>]"
    using fetchFilteredInvoices_page [OF example_has_client(1) b, of 1 "''PEND''"]
    by (simp add: eq c example_filter_PEND o invoices_table_row_def)
  have r2: "returned (fst (fetchInvoicesPages example_env example_world holder_init ''PEND'')) = Inr 1"
    using fetchInvoicesPages_client [OF example_has_client(1) b, of "''PEND''"]
    by (simp add: eq c example_filter_PEND ceiling_one_sixth)
  have s: "filter (spec_invoice_matches latin1_world [CHR 0xC9]) [rene_row] = [rene_row]"
    using example_rene(2) by (simp add: rene_row_def spec_invoice_matches_def)
  note t = invoice_filter_substring
      [OF a, of example_world "[]" example_env holder_init example_client 1]
  note u = invoice_filter_substring
      [OF example_rene(1), of latin1_world "[rene_row]" example_env holder_init example_client 1]
  show ?thesis
    using a example_has_client(1) b arr r1 r2 t example_rene(1) s u by simp
qed

text \<open>
  C6 does not hold for a query with a wildcard: the query \<^verbatim>\<open>_\<close> is a substring of no
  field of the two example rows, yet the \<^verbatim>\<open>WHERE\<close> clause keeps both, since \<^verbatim>\<open>%_%\<close>
  matches any text that is not empty.
\<close>

theorem invoice_filter_substring_counterexample:
  "filter (spec_invoice_matches example_world ''_'') (invoices_join_customers (db example_world)) = [] \<and>
   filter (invoice_where example_world (like_pattern ''_'')) (invoices_join_customers (db example_world)) =
     invoices_join_customers (db example_world) \<and>
   length (invoices_join_customers (db example_world)) = 2 \<and>
   returned (fst (fetchInvoicesPages example_env example_world holder_init ''_'')) = Inr 1"
proof -
  have b: "fails example_world CountFilteredInvoices = None"
    by (simp add: example_world_def)
  have c: "db example_world = example_db"
    by (simp add: example_world_def)
  have s: "filter (spec_invoice_matches example_world ''_'') (invoices_join_customers example_db) = []"
    by (simp add: example_join spec_invoice_matches_def example_texts example_underscore)
  have i: "ilike example_world ''Ann Lee'' (like_pattern ''_'')"
    by (simp add: ilike_def example_lower_char like_pattern_def ascii_lower_def char_of_def
          bit_Suc_0_iff)
  have k: "filter (invoice_where example_world (like_pattern ''_'')) (invoices_join_customers example_db) =
             invoices_join_customers example_db"
    by (simp add: example_join invoice_where_def i)
  have n: "length (invoices_join_customers example_db) = 2"
    by (simp add: example_join)
  have r: "returned (fst (fetchInvoicesPages example_env example_world holder_init ''_'')) = Inr 1"
    using fetchInvoicesPages_client [OF example_has_client(1) b, of "''_''"]
    by (simp add: c k n ceiling_one_third)
  show ?thesis
    by (simp add: c s k n r)
qed


end
